theory Spec2Isabelle
  imports Main
begin

section \<open>Token usage (utils/token-aggregator.ts, types/token-usage.ts)\<close>

text \<open>
  \<^verbatim>\<open>TokenUsage\<close> has two required counters and two optional ones. Token counts are
  integers; an optional field that is \<^verbatim>\<open>undefined\<close> is \<open>None\<close>.
\<close>

record TokenUsage =
  inputTokens :: int
  outputTokens :: int
  cacheCreationInputTokens :: "int option"
  cacheReadInputTokens :: "int option"

definition emptyTokenUsage :: TokenUsage where
  "emptyTokenUsage =
     \<lparr>inputTokens = 0, outputTokens = 0,
      cacheCreationInputTokens = None, cacheReadInputTokens = None\<rparr>"

text \<open>
  \<^verbatim>\<open>if (usage.cacheReadInputTokens) { result.f = (result.f ?? 0) + usage.f }\<close>:
  the guard is JavaScript truthiness, so an absent field and a reported \<open>0\<close> both
  leave the accumulator as it is.
\<close>

fun add_optional :: "int option \<Rightarrow> int option \<Rightarrow> int option" where
  "add_optional acc None = acc"
| "add_optional acc (Some v) =
     (if v = 0 then acc
      else Some ((case acc of None \<Rightarrow> 0 | Some a \<Rightarrow> a) + v))"

definition add_usage :: "TokenUsage \<Rightarrow> TokenUsage \<Rightarrow> TokenUsage" where
  "add_usage result usage =
     \<lparr>inputTokens = inputTokens result + inputTokens usage,
      outputTokens = outputTokens result + outputTokens usage,
      cacheCreationInputTokens =
        add_optional (cacheCreationInputTokens result) (cacheCreationInputTokens usage),
      cacheReadInputTokens =
        add_optional (cacheReadInputTokens result) (cacheReadInputTokens usage)\<rparr>"

definition aggregateTokenUsage :: "TokenUsage list \<Rightarrow> TokenUsage" where
  "aggregateTokenUsage usages = foldl add_usage emptyTokenUsage usages"




section \<open>JavaScript values\<close>

text \<open>
  Inputs, template contexts and tool payloads are \<^verbatim>\<open>unknown\<close> in the source. They are
  modelled as JSON-like data; numbers are integers. An object is the list of the
  properties that \<^verbatim>\<open>key in value\<close> and \<^verbatim>\<open>value[key]\<close> see, with distinct keys.
\<close>

datatype jsval =
    JUndefined
  | JNull
  | JBool bool
  | JNum int
  | JStr string
  | JArr "jsval list"
  | JObj "(string \<times> jsval) list"

definition digit_char :: "nat \<Rightarrow> char" where
  "digit_char d = ''0123456789'' ! d"

fun digits :: "nat \<Rightarrow> string" where
  "digits n = (if n < 10 then [digit_char n] else digits (n div 10) @ [digit_char (n mod 10)])"

definition int_to_string :: "int \<Rightarrow> string" where
  "int_to_string i = (if i < 0 then CHR ''-'' # digits (nat (- i)) else digits (nat i))"

fun join :: "string \<Rightarrow> string list \<Rightarrow> string" where
  "join sep [] = []"
| "join sep [x] = x"
| "join sep (x # y # ys) = x @ sep @ join sep (y # ys)"

text \<open>\<^verbatim>\<open>String(value)\<close>: an array joins its elements with a comma, \<^verbatim>\<open>null\<close> and
  \<^verbatim>\<open>undefined\<close> elements giving the empty string.\<close>

fun js_String :: "jsval \<Rightarrow> string" where
  "js_String JUndefined = ''undefined''"
| "js_String JNull = ''null''"
| "js_String (JBool b) = (if b then ''true'' else ''false'')"
| "js_String (JNum n) = int_to_string n"
| "js_String (JStr s) = s"
| "js_String (JArr xs) =
     join '','' (map (\<lambda>x. if x = JNull \<or> x = JUndefined then [] else js_String x) xs)"
| "js_String (JObj kvs) = ''[object Object]''"

text \<open>
  \<^verbatim>\<open>value && typeof value === 'object' && key in value\<close>, and then \<^verbatim>\<open>value[key]\<close>:
  \<open>Some\<close> of the property when the value is an object or an array that has the key,
  \<open>None\<close> otherwise. An array has its indices (written in decimal) and \<^verbatim>\<open>length\<close>.
\<close>

fun js_in :: "string \<Rightarrow> jsval \<Rightarrow> jsval option" where
  "js_in key (JObj kvs) = map_of kvs key"
| "js_in key (JArr xs) =
     (if key = ''length'' then Some (JNum (int (length xs)))
      else (case List.find (\<lambda>i. digits i = key) [0..<length xs] of
              Some i \<Rightarrow> Some (xs ! i)
            | None \<Rightarrow> None))"
| "js_in key v = None"

fun indexable :: "jsval \<Rightarrow> bool" where
  "indexable (JObj kvs) = True"
| "indexable (JArr xs) = True"
| "indexable v = False"

section \<open>Template interpolation (PromptInstance.interpolate)\<close>

definition is_space :: "char \<Rightarrow> bool" where
  "is_space c \<longleftrightarrow> c \<in> set [CHR '' '', CHR 0x09, CHR 0x0A, CHR 0x0B, CHR 0x0C, CHR 0x0D]"

definition trim :: "string \<Rightarrow> string" where
  "trim s = rev (dropWhile is_space (rev (dropWhile is_space s)))"

fun split_on :: "char \<Rightarrow> string \<Rightarrow> string list" where
  "split_on c [] = [[]]"
| "split_on c (x # xs) =
     (if x = c then [] # split_on c xs
      else (case split_on c xs of
              w # ws \<Rightarrow> (x # w) # ws
            | [] \<Rightarrow> [[x]]))"

text \<open>The \<^verbatim>\<open>for (const key of keys)\<close> loop of the callback: \<open>None\<close> is its
  \<^verbatim>\<open>return match\<close>.\<close>

fun walk :: "string list \<Rightarrow> jsval \<Rightarrow> jsval option" where
  "walk [] v = Some v"
| "walk (key # keys) v =
     (case js_in key v of
        Some v' \<Rightarrow> walk keys v'
      | None \<Rightarrow> None)"

text \<open>The callback given to \<^verbatim>\<open>template.replace\<close>; its last line is
  \<^verbatim>\<open>String(value ?? match)\<close>.\<close>

definition replacer :: "jsval \<Rightarrow> string \<Rightarrow> string \<Rightarrow> string" where
  "replacer context match path =
     (case walk (split_on CHR ''.'' (trim path)) context of
        None \<Rightarrow> match
      | Some v \<Rightarrow> (if v = JNull \<or> v = JUndefined then match else js_String v))"

text \<open>
  The regular expression \<^verbatim>\<open>/\{\{([^}]+)\}\}/\<close> tried at the head of a string: two opening
  braces, the longest non-empty run of characters other than a closing brace, two closing
  braces. The result is the captured path and the text after the match.
\<close>

definition match_at :: "string \<Rightarrow> (string \<times> string) option" where
  "match_at s =
     (case s of
        c1 # c2 # t \<Rightarrow>
          (if c1 = CHR ''{'' \<and> c2 = CHR ''{'' then
             (let path = takeWhile (\<lambda>c. c \<noteq> CHR ''}'') t;
                  after = dropWhile (\<lambda>c. c \<noteq> CHR ''}'') t
              in (if path = [] then None
                  else (case after of
                          a # b # rest \<Rightarrow>
                            (if a = CHR ''}'' \<and> b = CHR ''}'' then Some (path, rest) else None)
                        | _ \<Rightarrow> None)))
           else None)
      | _ \<Rightarrow> None)"

lemma match_at_shorter: "match_at s = Some (path, rest) \<Longrightarrow> length rest < length s"
proof -
  assume m: "match_at s = Some (path, rest)"
  then obtain t where s: "s = CHR ''{'' # CHR ''{'' # t"
    by (auto simp: match_at_def split: list.splits if_splits)
  from m s have "dropWhile (\<lambda>c. c \<noteq> CHR ''}'') t = CHR ''}'' # CHR ''}'' # rest"
    by (auto simp: match_at_def Let_def split: list.splits if_splits)
  then have "length rest < length (dropWhile (\<lambda>c. c \<noteq> CHR ''}'') t)"
    by simp
  also have "\<dots> \<le> length t"
    by (rule length_dropWhile_le)
  finally show ?thesis
    using s by simp
qed

text \<open>The global replace: scan from the left; at a match, emit the callback's result and
  go on after the match; otherwise copy one character.\<close>

function interpolate :: "string \<Rightarrow> jsval \<Rightarrow> string" where
  "interpolate [] context = []"
| "interpolate (c # cs) context =
     (case match_at (c # cs) of
        Some (path, rest) \<Rightarrow>
          replacer context (''{{'' @ path @ ''}}'') path @ interpolate rest context
      | None \<Rightarrow> c # interpolate cs context)"
  by pat_completeness auto
termination
  by (relation "measure (\<lambda>(s, c). length s)") (auto dest: match_at_shorter)

section \<open>Results, events and the model client (types/*.ts, integrations/anthropic-client.ts)\<close>

text \<open>
  What the code throws and catches is an \<^verbatim>\<open>Error\<close> object with its message;
  \<^verbatim>\<open>String(error)\<close> of such an object is \<^verbatim>\<open>Error: \<close> followed by the message.
\<close>

datatype error = Error string

fun error_String :: "error \<Rightarrow> string" where
  "error_String (Error msg) = ''Error: '' @ msg"

text \<open>
  Modelled from the spec: \<^verbatim>\<open>generateId\<close> (utils/id.ts) is not among the sources;
  an identifier is either supplied by a configuration or generated, and each generated
  one is new.
\<close>

datatype ident = Given string | Generated nat

text \<open>Wall-clock readings (\<^verbatim>\<open>Date.now()\<close>, \<^verbatim>\<open>timestamp\<close>, \<^verbatim>\<open>duration\<close>) are left out
  of every record and event below.\<close>

record ToolCallEvent =
  tc_id :: ident
  toolName :: string
  tc_input :: jsval
  tc_output :: jsval
  tc_error :: "error option"
  parentPromptId :: ident

record PromptResult =
  content :: string
  tokenUsage :: TokenUsage
  toolCalls :: "ToolCallEvent list"
  mcpEvents :: "jsval list"
  error :: "error option"

record ReflectionMetadata =
  originalError :: error
  reflectionPromptId :: ident
  reflectionResult :: PromptResult

record AgentRunResult =
  promptResults :: "PromptResult list"
  a_tokenUsage :: TokenUsage
  retryCount :: nat
  a_error :: "error option"
  reflectionMetadata :: "ReflectionMetadata option"

record StepRunResult =
  stepName :: string
  agentResults :: "AgentRunResult list"

record WorkflowRunResult =
  stepResults :: "StepRunResult list"
  w_tokenUsage :: TokenUsage
  w_error :: "error option"

datatype WorkflowStatus = idle | running | completed | failed | cancelled

text \<open>
  The events this code publishes (types/events.ts), with the fields the code fills in.
  \<^verbatim>\<open>node\<close> of a step event is the workflow's node, represented by its name.
\<close>

datatype WorkflowEvent =
    StepStart string string
  | StepEnd string string
  | AgentRunStart ident string jsval
  | AgentRunEnd ident string AgentRunResult TokenUsage
  | PromptInstanceStart ident string jsval
  | PromptInstanceEnd ident string PromptResult TokenUsage
  | PromptTokenReceived ident string
  | ToolCallStart ident string jsval ident
  | ToolCallEnd ident string jsval "error option" ident
  | ReflectionStart ident "error option"
  | ReflectionEnd ident PromptResult

datatype ContentBlock =
    TextBlock string
  | ToolUseBlock string string jsval
  | OtherBlock

record Message =
  m_content :: "ContentBlock list"
  stopReason :: "string option"
  usage :: TokenUsage
  m_id :: string

text \<open>The content of a tool result is \<^verbatim>\<open>String(toolError)\<close> or
  \<^verbatim>\<open>JSON.stringify(toolOutput)\<close>; the serialisation is kept as the value it serialises.\<close>

datatype ResultContent = ErrorText string | JsonOf jsval

record ToolResult =
  tool_use_id :: string
  tr_content :: ResultContent

datatype MessageParam =
    UserMessage string
  | AssistantMessage "ContentBlock list"
  | ToolResultMessage "ToolResult list"

record Tool =
  t_name :: string
  t_description :: string
  t_input_schema :: jsval

record MessageParams =
  mp_model :: string
  mp_max_tokens :: nat
  mp_system :: "string option"
  mp_messages :: "MessageParam list"
  mp_tools :: "Tool list option"

datatype StreamDelta = TextDelta string | OtherDelta

datatype StreamEvent = ContentBlockDelta StreamDelta | OtherStreamEvent

text \<open>A message stream: the events it delivers, the error that ends the iteration if it
  fails, and what \<^verbatim>\<open>finalMessage()\<close> gives (the input and output token counts).\<close>

record MessageStream =
  stream_events :: "StreamEvent list"
  stream_failure :: "error option"
  finalMessage :: "error + (int \<times> int)"

text \<open>The model client is a collaborator: a state \<open>'c\<close> of its own and, for each
  request, a response or a rejection.\<close>

record 'c AnthropicClient =
  on_createMessage :: "'c \<Rightarrow> MessageParams \<Rightarrow> (error + Message) \<times> 'c"
  on_createMessageStream :: "'c \<Rightarrow> MessageParams \<Rightarrow> (error + MessageStream) \<times> 'c"

text \<open>
  The state a run works on: the client's state, the events published so far (oldest
  first), the supply of generated identifiers, the requests sent to
  \<^verbatim>\<open>createMessage\<close> with their outcomes, and the workflow status.
\<close>

record 'c world =
  client_state :: 'c
  emitted :: "WorkflowEvent list"
  fresh :: nat
  calls :: "(MessageParams \<times> (error + Message)) list"
  status :: WorkflowStatus

text \<open>
  How a call ends: it returns a value, an exception escapes it, or it does not return
  (the tool loop has used up its bound on iterations).
\<close>

datatype 'a outcome = Returned 'a | Threw error | NoReturn

text \<open>
  Modelled from the spec: \<^verbatim>\<open>Observable.next\<close> (utils/observable.ts) and the
  \<^verbatim>\<open>emitEvent\<close> and \<^verbatim>\<open>setStatus\<close> methods of the \<^verbatim>\<open>Workflow\<close> base class
  (core/workflow.ts) are not among the sources. Publishing delivers the event
  synchronously, in order, and does not alter control flow; \<^verbatim>\<open>setStatus\<close> stores the
  status.
\<close>

definition emit :: "WorkflowEvent \<Rightarrow> 'c world \<Rightarrow> 'c world" where
  "emit e w = w\<lparr>emitted := emitted w @ [e]\<rparr>"

definition setStatus :: "WorkflowStatus \<Rightarrow> 'c world \<Rightarrow> 'c world" where
  "setStatus s w = w\<lparr>status := s\<rparr>"

definition generateId :: "'c world \<Rightarrow> ident \<times> 'c world" where
  "generateId w = (Generated (fresh w), w\<lparr>fresh := Suc (fresh w)\<rparr>)"

definition createMessage ::
  "'c AnthropicClient \<Rightarrow> MessageParams \<Rightarrow> 'c world \<Rightarrow> (error + Message) \<times> 'c world" where
  "createMessage client params w =
     (case on_createMessage client (client_state w) params of
        (r, c') \<Rightarrow> (r, w\<lparr>client_state := c', calls := calls w @ [(params, r)]\<rparr>))"

section \<open>Prompt execution (core/prompt-instance.ts)\<close>

text \<open>A hook is a function of its arguments that returns or throws. The hooks
  \<^verbatim>\<open>onMCP\<close> and \<^verbatim>\<open>onValidationError\<close> are never called and are left out.\<close>

record PromptHooks =
  beforeCall :: "(jsval \<Rightarrow> error + jsval) option"
  afterCall :: "(PromptResult \<Rightarrow> error + PromptResult) option"
  onTool :: "(ToolCallEvent \<Rightarrow> error + unit) option"

record PromptConfig =
  p_id :: "string option"
  p_name :: string
  p_system :: "string option"
  user :: string
  p_model :: "string option"
  cacheable :: "bool option"
  jsonSchema :: "jsval option"
  p_hooks :: "PromptHooks option"

type_synonym ToolHandler = "jsval \<Rightarrow> error + jsval"

text \<open>The handler registry is a \<^verbatim>\<open>Map\<close>: its keys in insertion order, each once.\<close>

record PromptInstance =
  pi_id :: ident
  pi_config :: PromptConfig
  resolvedModel :: string
  pi_input :: jsval
  pi_observed :: bool
  pi_toolHandlers :: "(string \<times> ToolHandler) list"

definition new_PromptInstance ::
  "PromptConfig \<Rightarrow> string \<Rightarrow> jsval \<Rightarrow> bool \<Rightarrow> (string \<times> ToolHandler) list \<Rightarrow> 'c world
   \<Rightarrow> PromptInstance \<times> 'c world" where
  "new_PromptInstance cfg m inp observed handlers w =
     (case (case p_id cfg of Some i \<Rightarrow> (Given i, w) | None \<Rightarrow> generateId w) of
        (i, w') \<Rightarrow>
          (\<lparr>pi_id = i, pi_config = cfg, resolvedModel = m, pi_input = inp,
            pi_observed = observed, pi_toolHandlers = handlers\<rparr>, w'))"

definition pi_emit :: "PromptInstance \<Rightarrow> WorkflowEvent \<Rightarrow> 'c world \<Rightarrow> 'c world" where
  "pi_emit inst e w = (if pi_observed inst then emit e w else w)"

definition hook_beforeCall :: "PromptConfig \<Rightarrow> (jsval \<Rightarrow> error + jsval) option" where
  "hook_beforeCall cfg = (case p_hooks cfg of None \<Rightarrow> None | Some h \<Rightarrow> beforeCall h)"

definition hook_afterCall :: "PromptConfig \<Rightarrow> (PromptResult \<Rightarrow> error + PromptResult) option" where
  "hook_afterCall cfg = (case p_hooks cfg of None \<Rightarrow> None | Some h \<Rightarrow> afterCall h)"

definition hook_onTool :: "PromptConfig \<Rightarrow> (ToolCallEvent \<Rightarrow> error + unit) option" where
  "hook_onTool cfg = (case p_hooks cfg of None \<Rightarrow> None | Some h \<Rightarrow> onTool h)"

text \<open>The inner \<^verbatim>\<open>try\<close> around one tool call: the output and the error it leaves in
  \<^verbatim>\<open>toolOutput\<close> and \<^verbatim>\<open>toolError\<close>.\<close>

definition call_tool :: "PromptInstance \<Rightarrow> ident \<Rightarrow> string \<Rightarrow> jsval \<Rightarrow> jsval \<times> error option" where
  "call_tool inst toolId name inp =
     (case map_of (pi_toolHandlers inst) name of
        Some handler \<Rightarrow>
          (case (case hook_onTool (pi_config inst) of
                   Some h \<Rightarrow>
                     h \<lparr>tc_id = toolId, toolName = name, tc_input = inp, tc_output = JUndefined,
                        tc_error = None, parentPromptId = pi_id inst\<rparr>
                 | None \<Rightarrow> Inr ()) of
             Inl err \<Rightarrow> (JUndefined, Some err)
           | Inr u \<Rightarrow>
               (case handler inp of
                  Inl err \<Rightarrow> (JUndefined, Some err)
                | Inr out \<Rightarrow> (out, None)))
      | None \<Rightarrow> (JUndefined, Some (Error (''Unknown tool: '' @ name))))"

text \<open>The \<^verbatim>\<open>for (const block of response.content)\<close> loop, with \<^verbatim>\<open>toolCalls\<close> and
  \<^verbatim>\<open>toolResults\<close> as accumulators.\<close>

fun process_blocks ::
  "PromptInstance \<Rightarrow> ContentBlock list \<Rightarrow> ToolCallEvent list \<Rightarrow> ToolResult list \<Rightarrow> 'c world
   \<Rightarrow> (ToolCallEvent list \<times> ToolResult list) \<times> 'c world" where
  "process_blocks inst [] tcs trs w = ((tcs, trs), w)"
| "process_blocks inst (TextBlock t # bs) tcs trs w = process_blocks inst bs tcs trs w"
| "process_blocks inst (OtherBlock # bs) tcs trs w = process_blocks inst bs tcs trs w"
| "process_blocks inst (ToolUseBlock bid name inp # bs) tcs trs w =
     (case generateId w of
        (toolId, w1) \<Rightarrow>
          (case call_tool inst toolId name inp of
             (out, err) \<Rightarrow>
               process_blocks inst bs
                 (tcs @ [\<lparr>tc_id = toolId, toolName = name, tc_input = inp, tc_output = out,
                           tc_error = err, parentPromptId = pi_id inst\<rparr>])
                 (trs @ [\<lparr>tool_use_id = bid,
                           tr_content = (case err of
                                           Some e \<Rightarrow> ErrorText (error_String e)
                                         | None \<Rightarrow> JsonOf out)\<rparr>])
                 (pi_emit inst (ToolCallEnd toolId name out err (pi_id inst))
                    (pi_emit inst (ToolCallStart toolId name inp (pi_id inst)) w1))))"

definition request ::
  "PromptInstance \<Rightarrow> string option \<Rightarrow> MessageParam list \<Rightarrow> Tool list option \<Rightarrow> MessageParams" where
  "request inst systemContent msgs tools =
     \<lparr>mp_model = resolvedModel inst, mp_max_tokens = 4096, mp_system = systemContent,
      mp_messages = msgs, mp_tools = tools\<rparr>"

text \<open>
  \<^verbatim>\<open>while (response.stopReason === 'tool_use')\<close>. The first argument bounds the number
  of iterations; when the bound is used up and the response still asks for tools, the
  loop has not returned. The result carries \<^verbatim>\<open>totalUsage\<close> and \<^verbatim>\<open>toolCalls\<close> as they
  stand when the loop is left, also when it is left by an exception.
\<close>

fun tool_loop ::
  "nat \<Rightarrow> 'c AnthropicClient \<Rightarrow> PromptInstance \<Rightarrow> string option \<Rightarrow> Tool list option \<Rightarrow> Message
   \<Rightarrow> MessageParam list \<Rightarrow> TokenUsage \<Rightarrow> ToolCallEvent list \<Rightarrow> 'c world
   \<Rightarrow> (Message outcome \<times> TokenUsage \<times> ToolCallEvent list) \<times> 'c world" where
  "tool_loop fuel client inst systemContent tools response msgs totalUsage tcs w =
     (if stopReason response = Some ''tool_use'' then
        (case fuel of
           0 \<Rightarrow> ((NoReturn, totalUsage, tcs), w)
         | Suc fuel' \<Rightarrow>
             (case process_blocks inst (m_content response) tcs [] w of
                ((tcs', toolResults), w1) \<Rightarrow>
                  (case createMessage client
                          (request inst systemContent
                             (msgs @ [AssistantMessage (m_content response),
                                      ToolResultMessage toolResults]) tools) w1 of
                     (Inl err, w2) \<Rightarrow> ((Threw err, totalUsage, tcs'), w2)
                   | (Inr response', w2) \<Rightarrow>
                       tool_loop fuel' client inst systemContent tools response'
                         (msgs @ [AssistantMessage (m_content response),
                                  ToolResultMessage toolResults])
                         (aggregateTokenUsage [totalUsage, usage response']) tcs' w2)))
      else ((Returned response, totalUsage, tcs), w))"

declare tool_loop.simps [simp del]

fun block_text :: "ContentBlock \<Rightarrow> string option" where
  "block_text (TextBlock t) = Some t"
| "block_text b = None"

definition textContent :: "ContentBlock list \<Rightarrow> string" where
  "textContent blocks = join [CHR 0x0A] (List.map_filter block_text blocks)"

text \<open>The tool definitions sent with a request: one per key of the handler registry,
  \<^verbatim>\<open>undefined\<close> when the registry is empty.\<close>

definition tool_definitions :: "(string \<times> ToolHandler) list \<Rightarrow> Tool list option" where
  "tool_definitions handlers =
     (if handlers = [] then None
      else Some (map (\<lambda>name. \<lparr>t_name = name, t_description = ''Tool: '' @ name,
                               t_input_schema =
                                 JObj [(''type'', JStr ''object''), (''properties'', JObj [])]\<rparr>)
                  (map fst handlers)))"

definition interpolation_context :: "jsval \<Rightarrow> jsval" where
  "interpolation_context processedInput =
     (if indexable processedInput then processedInput else JObj [(''input'', processedInput)])"

definition systemContent_of :: "PromptConfig \<Rightarrow> jsval \<Rightarrow> string option" where
  "systemContent_of cfg context =
     (case p_system cfg of
        None \<Rightarrow> None
      | Some s \<Rightarrow> (if s = [] then None else Some (interpolate s context)))"

text \<open>The \<^verbatim>\<open>catch\<close> block of \<^verbatim>\<open>run\<close>.\<close>

definition run_failed ::
  "PromptInstance \<Rightarrow> error \<Rightarrow> TokenUsage \<Rightarrow> ToolCallEvent list \<Rightarrow> 'c world
   \<Rightarrow> PromptResult outcome \<times> 'c world" where
  "run_failed inst err totalUsage tcs w =
     (Returned \<lparr>content = [], tokenUsage = totalUsage, toolCalls = tcs, mcpEvents = [],
                error = Some err\<rparr>,
      pi_emit inst
        (PromptInstanceEnd (pi_id inst) (p_name (pi_config inst))
           \<lparr>content = [], tokenUsage = totalUsage, toolCalls = tcs, mcpEvents = [],
            error = Some err\<rparr> totalUsage) w)"

definition run_finished ::
  "PromptInstance \<Rightarrow> PromptResult \<Rightarrow> 'c world \<Rightarrow> PromptResult outcome \<times> 'c world" where
  "run_finished inst result w =
     (Returned result,
      pi_emit inst
        (PromptInstanceEnd (pi_id inst) (p_name (pi_config inst)) result (tokenUsage result)) w)"

text \<open>The body of the \<^verbatim>\<open>try\<close> block of \<^verbatim>\<open>run\<close>, from the first model call on.\<close>

definition run_body ::
  "nat \<Rightarrow> 'c AnthropicClient \<Rightarrow> PromptInstance \<Rightarrow> jsval \<Rightarrow> 'c world
   \<Rightarrow> PromptResult outcome \<times> 'c world" where
  "run_body fuel client inst processedInput w =
     (case createMessage client
             (request inst
                (systemContent_of (pi_config inst) (interpolation_context processedInput))
                [UserMessage (interpolate (user (pi_config inst))
                                (interpolation_context processedInput))]
                (tool_definitions (pi_toolHandlers inst))) w of
        (Inl err, w1) \<Rightarrow> run_failed inst err emptyTokenUsage [] w1
      | (Inr response, w1) \<Rightarrow>
          (case tool_loop fuel client inst
                  (systemContent_of (pi_config inst) (interpolation_context processedInput))
                  (tool_definitions (pi_toolHandlers inst)) response
                  [UserMessage (interpolate (user (pi_config inst))
                                  (interpolation_context processedInput))]
                  (aggregateTokenUsage [emptyTokenUsage, usage response]) [] w1 of
             ((NoReturn, totalUsage, tcs), w2) \<Rightarrow> (NoReturn, w2)
           | ((Threw err, totalUsage, tcs), w2) \<Rightarrow> run_failed inst err totalUsage tcs w2
           | ((Returned final, totalUsage, tcs), w2) \<Rightarrow>
               (case hook_afterCall (pi_config inst) of
                  None \<Rightarrow>
                    run_finished inst
                      \<lparr>content = textContent (m_content final), tokenUsage = totalUsage,
                       toolCalls = tcs, mcpEvents = [], error = None\<rparr> w2
                | Some h \<Rightarrow>
                    (case h \<lparr>content = textContent (m_content final), tokenUsage = totalUsage,
                             toolCalls = tcs, mcpEvents = [], error = None\<rparr> of
                       Inl err \<Rightarrow> run_failed inst err totalUsage tcs w2
                     | Inr result \<Rightarrow> run_finished inst result w2))))"

text \<open>\<^verbatim>\<open>PromptInstance.run\<close>: the \<^verbatim>\<open>beforeCall\<close> hook and the start event come before
  the \<^verbatim>\<open>try\<close>.\<close>

definition PromptInstance_run ::
  "nat \<Rightarrow> 'c AnthropicClient \<Rightarrow> PromptInstance \<Rightarrow> 'c world \<Rightarrow> PromptResult outcome \<times> 'c world" where
  "PromptInstance_run fuel client inst w =
     (case (case hook_beforeCall (pi_config inst) of
              Some h \<Rightarrow> h (pi_input inst)
            | None \<Rightarrow> Inr (pi_input inst)) of
        Inl err \<Rightarrow> (Threw err, w)
      | Inr processedInput \<Rightarrow>
          run_body fuel client inst processedInput
            (pi_emit inst
               (PromptInstanceStart (pi_id inst) (p_name (pi_config inst)) processedInput) w))"


text \<open>
  \<^verbatim>\<open>runStreaming\<close> is a generator. Its value here is what it yields when it is read to
  the end (token items, then one result item), and the exception that escapes it, if any.
\<close>

datatype Yielded = Token string | Result PromptResult

fun delta_token :: "StreamEvent \<Rightarrow> string option" where
  "delta_token (ContentBlockDelta (TextDelta t)) = Some t"
| "delta_token e = None"

definition createMessageStream ::
  "'c AnthropicClient \<Rightarrow> MessageParams \<Rightarrow> 'c world \<Rightarrow> (error + MessageStream) \<times> 'c world" where
  "createMessageStream client params w =
     (case on_createMessageStream client (client_state w) params of
        (r, c') \<Rightarrow> (r, w\<lparr>client_state := c'\<rparr>))"

text \<open>The \<^verbatim>\<open>catch\<close> block of \<^verbatim>\<open>runStreaming\<close>, after the given tokens were yielded.\<close>

definition streaming_failed ::
  "PromptInstance \<Rightarrow> error \<Rightarrow> string list \<Rightarrow> TokenUsage \<Rightarrow> 'c world
   \<Rightarrow> (Yielded list \<times> error option) \<times> 'c world" where
  "streaming_failed inst err tokens totalUsage w =
     ((map Token tokens @
         [Result \<lparr>content = concat tokens, tokenUsage = totalUsage, toolCalls = [],
                  mcpEvents = [], error = Some err\<rparr>], None),
      pi_emit inst
        (PromptInstanceEnd (pi_id inst) (p_name (pi_config inst))
           \<lparr>content = concat tokens, tokenUsage = totalUsage, toolCalls = [],
            mcpEvents = [], error = Some err\<rparr> totalUsage) w)"

definition streaming_finished ::
  "PromptInstance \<Rightarrow> PromptResult \<Rightarrow> string list \<Rightarrow> 'c world
   \<Rightarrow> (Yielded list \<times> error option) \<times> 'c world" where
  "streaming_finished inst finalResult tokens w =
     ((map Token tokens @ [Result finalResult], None),
      pi_emit inst
        (PromptInstanceEnd (pi_id inst) (p_name (pi_config inst)) finalResult
           (tokenUsage finalResult)) w)"

definition emit_tokens :: "PromptInstance \<Rightarrow> string list \<Rightarrow> 'c world \<Rightarrow> 'c world" where
  "emit_tokens inst tokens w =
     foldl (\<lambda>w' t. pi_emit inst (PromptTokenReceived (pi_id inst) t) w') w tokens"

definition PromptInstance_runStreaming ::
  "'c AnthropicClient \<Rightarrow> PromptInstance \<Rightarrow> 'c world
   \<Rightarrow> (Yielded list \<times> error option) \<times> 'c world" where
  "PromptInstance_runStreaming client inst w =
     (case (case hook_beforeCall (pi_config inst) of
              Some h \<Rightarrow> h (pi_input inst)
            | None \<Rightarrow> Inr (pi_input inst)) of
        Inl err \<Rightarrow> (([], Some err), w)
      | Inr processedInput \<Rightarrow>
          (case createMessageStream client
                  (request inst
                     (systemContent_of (pi_config inst) (interpolation_context processedInput))
                     [UserMessage (interpolate (user (pi_config inst))
                                     (interpolation_context processedInput))]
                     None)
                  (pi_emit inst
                     (PromptInstanceStart (pi_id inst) (p_name (pi_config inst))
                        processedInput) w) of
             (Inl err, w1) \<Rightarrow> streaming_failed inst err [] emptyTokenUsage w1
           | (Inr stream, w1) \<Rightarrow>
               (case stream_failure stream of
                  Some err \<Rightarrow>
                    streaming_failed inst err (List.map_filter delta_token (stream_events stream))
                      emptyTokenUsage
                      (emit_tokens inst (List.map_filter delta_token (stream_events stream)) w1)
                | None \<Rightarrow>
                    (case finalMessage stream of
                       Inl err \<Rightarrow>
                         streaming_failed inst err
                           (List.map_filter delta_token (stream_events stream)) emptyTokenUsage
                           (emit_tokens inst
                              (List.map_filter delta_token (stream_events stream)) w1)
                     | Inr (input_tokens, output_tokens) \<Rightarrow>
                         (case hook_afterCall (pi_config inst) of
                            None \<Rightarrow>
                              streaming_finished inst
                                \<lparr>content = concat (List.map_filter delta_token
                                                      (stream_events stream)),
                                 tokenUsage =
                                   \<lparr>inputTokens = input_tokens, outputTokens = output_tokens,
                                    cacheCreationInputTokens = None,
                                    cacheReadInputTokens = None\<rparr>,
                                 toolCalls = [], mcpEvents = [], error = None\<rparr>
                                (List.map_filter delta_token (stream_events stream))
                                (emit_tokens inst
                                   (List.map_filter delta_token (stream_events stream)) w1)
                          | Some h \<Rightarrow>
                              (case h \<lparr>content = concat (List.map_filter delta_token
                                                          (stream_events stream)),
                                       tokenUsage =
                                         \<lparr>inputTokens = input_tokens,
                                          outputTokens = output_tokens,
                                          cacheCreationInputTokens = None,
                                          cacheReadInputTokens = None\<rparr>,
                                       toolCalls = [], mcpEvents = [], error = None\<rparr> of
                                 Inl err \<Rightarrow>
                                   streaming_failed inst err
                                     (List.map_filter delta_token (stream_events stream))
                                     \<lparr>inputTokens = input_tokens, outputTokens = output_tokens,
                                      cacheCreationInputTokens = None,
                                      cacheReadInputTokens = None\<rparr>
                                     (emit_tokens inst
                                        (List.map_filter delta_token (stream_events stream)) w1)
                               | Inr finalResult \<Rightarrow>
                                   streaming_finished inst finalResult
                                     (List.map_filter delta_token (stream_events stream))
                                     (emit_tokens inst
                                        (List.map_filter delta_token (stream_events stream))
                                        w1)))))))"

section \<open>Agent (core/agent.ts)\<close>

record ToolDefinition =
  td_name :: string
  td_description :: string
  td_input_schema :: jsval

record AgentHooks =
  beforeRun :: "(jsval \<Rightarrow> error + jsval) option"
  afterRun :: "(AgentRunResult \<Rightarrow> error + AgentRunResult) option"
  beforePrompt :: "(PromptConfig \<Rightarrow> jsval \<Rightarrow> error + jsval) option"
  afterPrompt :: "(PromptConfig \<Rightarrow> PromptResult \<Rightarrow> error + PromptResult) option"
  onError :: "(error \<Rightarrow> error + unit) option"
  onReflection :: "(PromptResult \<Rightarrow> PromptResult \<Rightarrow> error + unit) option"

text \<open>\<^verbatim>\<open>maxRetries\<close> is a count. \<^verbatim>\<open>enableReflection\<close> is read for its truthiness.\<close>

record AgentConfig =
  a_id :: "string option"
  a_name :: string
  a_model :: "string option"
  prompts :: "PromptConfig list"
  tools :: "ToolDefinition list option"
  enableReflection :: "bool option"
  maxRetries :: "nat option"
  enableCache :: "bool option"
  a_hooks :: "AgentHooks option"

record Agent =
  ag_id :: ident
  ag_config :: AgentConfig
  parentModel :: "string option"
  ag_toolHandlers :: "(string \<times> ToolHandler) list"

definition new_Agent ::
  "AgentConfig \<Rightarrow> string option \<Rightarrow> (string \<times> ToolHandler) list \<Rightarrow> 'c world \<Rightarrow> Agent \<times> 'c world" where
  "new_Agent cfg parent handlers w =
     (case (case a_id cfg of Some i \<Rightarrow> (Given i, w) | None \<Rightarrow> generateId w) of
        (i, w') \<Rightarrow>
          (\<lparr>ag_id = i, ag_config = cfg, parentModel = parent, ag_toolHandlers = handlers\<rparr>, w'))"

text \<open>\<^verbatim>\<open>a ?? b\<close>.\<close>

fun nullish :: "'a option \<Rightarrow> 'a option \<Rightarrow> 'a option" where
  "nullish (Some a) b = Some a"
| "nullish None b = b"

definition no_model :: error where
  "no_model = Error ''No model configured. Specify model on prompt, agent, or workflow.''"

text \<open>\<^verbatim>\<open>if (!model) throw\<close>: the empty string is falsy as well.\<close>

definition resolveModel :: "Agent \<Rightarrow> string option \<Rightarrow> error + string" where
  "resolveModel ag promptModel =
     (case nullish promptModel (nullish (a_model (ag_config ag)) (parentModel ag)) of
        None \<Rightarrow> Inl no_model
      | Some m \<Rightarrow> (if m = [] then Inl no_model else Inr m))"

definition DEFAULT_REFLECTION_PROMPT :: PromptConfig where
  "DEFAULT_REFLECTION_PROMPT =
     \<lparr>p_id = None, p_name = ''reflection'',
      p_system = Some (''You are a helpful assistant tasked with analyzing a failed response and providing a corrected version.''
                       @ [CHR 0x0A] @
                       ''Analyze the error and the original output, then provide a corrected response.''),
      user = ''Original prompt: {{originalPrompt}}'' @ [CHR 0x0A, CHR 0x0A] @
             ''Original response: {{originalResult}}'' @ [CHR 0x0A, CHR 0x0A] @
             ''Error: {{error}}'' @ [CHR 0x0A, CHR 0x0A] @
             ''Please provide a corrected response that addresses the error.'',
      p_model = None, cacheable = None, jsonSchema = None, p_hooks = None\<rparr>"

definition hook_onReflection ::
  "Agent \<Rightarrow> (PromptResult \<Rightarrow> PromptResult \<Rightarrow> error + unit) option" where
  "hook_onReflection ag =
     (case a_hooks (ag_config ag) of None \<Rightarrow> None | Some h \<Rightarrow> onReflection h)"

definition hook_onError :: "Agent \<Rightarrow> (error \<Rightarrow> error + unit) option" where
  "hook_onError ag = (case a_hooks (ag_config ag) of None \<Rightarrow> None | Some h \<Rightarrow> onError h)"

definition hook_beforeRun :: "Agent \<Rightarrow> (jsval \<Rightarrow> error + jsval) option" where
  "hook_beforeRun ag = (case a_hooks (ag_config ag) of None \<Rightarrow> None | Some h \<Rightarrow> beforeRun h)"

definition hook_afterRun :: "Agent \<Rightarrow> (AgentRunResult \<Rightarrow> error + AgentRunResult) option" where
  "hook_afterRun ag = (case a_hooks (ag_config ag) of None \<Rightarrow> None | Some h \<Rightarrow> afterRun h)"

definition hook_beforePrompt :: "Agent \<Rightarrow> (PromptConfig \<Rightarrow> jsval \<Rightarrow> error + jsval) option" where
  "hook_beforePrompt ag =
     (case a_hooks (ag_config ag) of None \<Rightarrow> None | Some h \<Rightarrow> beforePrompt h)"

definition hook_afterPrompt ::
  "Agent \<Rightarrow> (PromptConfig \<Rightarrow> PromptResult \<Rightarrow> error + PromptResult) option" where
  "hook_afterPrompt ag =
     (case a_hooks (ag_config ag) of None \<Rightarrow> None | Some h \<Rightarrow> afterPrompt h)"

definition call_onError :: "Agent \<Rightarrow> error \<Rightarrow> error + unit" where
  "call_onError ag e = (case hook_onError ag of Some h \<Rightarrow> h e | None \<Rightarrow> Inr ())"

definition error_text :: "error option \<Rightarrow> string" where
  "error_text e = (case e of Some err \<Rightarrow> error_String err | None \<Rightarrow> ''undefined'')"

text \<open>\<^verbatim>\<open>Agent.reflect\<close>. The reflection instance gets the event observable and no tool
  handlers.\<close>

definition reflect ::
  "nat \<Rightarrow> 'c AnthropicClient \<Rightarrow> Agent \<Rightarrow> PromptConfig \<Rightarrow> PromptResult \<Rightarrow> string option
   \<Rightarrow> 'c world \<Rightarrow> PromptResult outcome \<times> 'c world" where
  "reflect fuel client ag originalPromptConfig failedResult overrideModel w =
     (case resolveModel ag overrideModel of
        Inl err \<Rightarrow> (Threw err, emit (ReflectionStart (ag_id ag) (error failedResult)) w)
      | Inr m \<Rightarrow>
          (case new_PromptInstance DEFAULT_REFLECTION_PROMPT m
                  (JObj [(''originalPrompt'', JStr (user originalPromptConfig)),
                         (''originalResult'', JStr (content failedResult)),
                         (''error'', JStr (error_text (error failedResult)))])
                  True []
                  (emit (ReflectionStart (ag_id ag) (error failedResult)) w) of
             (reflectionInstance, w1) \<Rightarrow>
               (case PromptInstance_run fuel client reflectionInstance w1 of
                  (NoReturn, w2) \<Rightarrow> (NoReturn, w2)
                | (Threw err, w2) \<Rightarrow> (Threw err, w2)
                | (Returned result, w2) \<Rightarrow>
                    (case hook_onReflection ag of
                       None \<Rightarrow> (Returned result, emit (ReflectionEnd (ag_id ag) result) w2)
                     | Some h \<Rightarrow>
                         (case h failedResult result of
                            Inl err \<Rightarrow> (Threw err, emit (ReflectionEnd (ag_id ag) result) w2)
                          | Inr u \<Rightarrow>
                              (Returned result,
                               emit (ReflectionEnd (ag_id ag) result) w2))))))"

definition maxRetries_of :: "Agent \<Rightarrow> nat" where
  "maxRetries_of ag = (case maxRetries (ag_config ag) of Some n \<Rightarrow> n | None \<Rightarrow> 0)"

definition reflection_enabled :: "Agent \<Rightarrow> bool" where
  "reflection_enabled ag = (enableReflection (ag_config ag) = Some True)"

text \<open>
  The retry loop \<^verbatim>\<open>while (attempts <= maxRetries)\<close> of one prompt. Its arguments after
  the prompt input are the local variables \<^verbatim>\<open>attempts\<close>, \<^verbatim>\<open>result\<close>, \<^verbatim>\<open>retryCount\<close> and
  \<^verbatim>\<open>reflectionMetadata\<close>; it gives back \<^verbatim>\<open>result\<close> (or the exception that left the
  loop) with \<^verbatim>\<open>retryCount\<close> and \<^verbatim>\<open>reflectionMetadata\<close> as they stand then.
\<close>

function retry_loop ::
  "nat \<Rightarrow> 'c AnthropicClient \<Rightarrow> Agent \<Rightarrow> PromptConfig \<Rightarrow> jsval \<Rightarrow> nat \<Rightarrow> PromptResult option
   \<Rightarrow> nat \<Rightarrow> ReflectionMetadata option \<Rightarrow> 'c world
   \<Rightarrow> (PromptResult option outcome \<times> nat \<times> ReflectionMetadata option) \<times> 'c world" where
  "retry_loop fuel client ag promptConfig promptInput attempts result rc meta w =
     (if attempts \<le> maxRetries_of ag then
        (case resolveModel ag (p_model promptConfig) of
           Inl err \<Rightarrow> ((Threw err, rc, meta), w)
         | Inr m \<Rightarrow>
             (case new_PromptInstance promptConfig m promptInput True (ag_toolHandlers ag) w of
                (instance, w1) \<Rightarrow>
                  (case PromptInstance_run fuel client instance w1 of
                     (NoReturn, w2) \<Rightarrow> ((NoReturn, rc, meta), w2)
                   | (Threw err, w2) \<Rightarrow> ((Threw err, rc, meta), w2)
                   | (Returned res, w2) \<Rightarrow>
                       (case error res of
                          None \<Rightarrow> ((Returned (Some res), rc, meta), w2)
                        | Some e \<Rightarrow>
                            (case call_onError ag e of
                               Inl err \<Rightarrow> ((Threw err, Suc rc, meta), w2)
                             | Inr u \<Rightarrow>
                                 (if reflection_enabled ag \<and> Suc attempts \<le> maxRetries_of ag then
                                    (case reflect fuel client ag promptConfig res None w2 of
                                       (NoReturn, w3) \<Rightarrow> ((NoReturn, Suc rc, meta), w3)
                                     | (Threw err, w3) \<Rightarrow> ((Threw err, Suc rc, meta), w3)
                                     | (Returned reflected, w3) \<Rightarrow>
                                         (case error reflected of
                                            None \<Rightarrow>
                                              ((Returned (Some reflected), Suc rc,
                                                Some \<lparr>originalError = e,
                                                      reflectionPromptId = pi_id instance,
                                                      reflectionResult = reflected\<rparr>),
                                               w3)
                                          | Some e' \<Rightarrow>
                                              retry_loop fuel client ag promptConfig promptInput
                                                (Suc attempts) (Some res) (Suc rc) meta w3))
                                  else if Suc attempts \<le> maxRetries_of ag then
                                    retry_loop fuel client ag promptConfig promptInput
                                      (Suc attempts) (Some res) (Suc rc) meta w2
                                  else ((Returned (Some res), Suc rc, meta), w2)))))))
      else ((Returned result, rc, meta), w))"
  by pat_completeness auto
termination
  by (relation "measure (\<lambda>(fuel, client, ag, promptConfig, promptInput, attempts, rest).
                    Suc (maxRetries_of ag) - attempts)") auto

declare retry_loop.simps [simp del]


text \<open>\<^verbatim>\<open>if (result && hooks?.afterPrompt) result = await hooks.afterPrompt(...)\<close>.\<close>

definition call_afterPrompt ::
  "Agent \<Rightarrow> PromptConfig \<Rightarrow> PromptResult option \<Rightarrow> error + PromptResult option" where
  "call_afterPrompt ag promptConfig result =
     (case result of
        None \<Rightarrow> Inr None
      | Some r \<Rightarrow>
          (case hook_afterPrompt ag of
             None \<Rightarrow> Inr (Some r)
           | Some h \<Rightarrow>
               (case h promptConfig r of
                  Inl err \<Rightarrow> Inl err
                | Inr r' \<Rightarrow> Inr (Some r'))))"

definition call_beforePrompt :: "Agent \<Rightarrow> PromptConfig \<Rightarrow> jsval \<Rightarrow> error + jsval" where
  "call_beforePrompt ag promptConfig processedInput =
     (case hook_beforePrompt ag of
        None \<Rightarrow> Inr processedInput
      | Some h \<Rightarrow> h promptConfig processedInput)"

definition has_error :: "PromptResult option \<Rightarrow> bool" where
  "has_error result = (case result of None \<Rightarrow> False | Some r \<Rightarrow> error r \<noteq> None)"

definition push_result :: "PromptResult list \<Rightarrow> PromptResult option \<Rightarrow> PromptResult list" where
  "push_result prs result = (case result of None \<Rightarrow> prs | Some r \<Rightarrow> prs @ [r])"

text \<open>
  The loop \<^verbatim>\<open>for (const promptConfig of this.config.prompts)\<close> inside the \<^verbatim>\<open>try\<close> of
  \<^verbatim>\<open>Agent.run\<close>, with \<^verbatim>\<open>promptResults\<close>, \<^verbatim>\<open>retryCount\<close> and
  \<^verbatim>\<open>reflectionMetadata\<close> as accumulators; they are given back also when an exception
  leaves the loop, for the \<^verbatim>\<open>catch\<close> block.
\<close>

fun run_prompts ::
  "nat \<Rightarrow> 'c AnthropicClient \<Rightarrow> Agent \<Rightarrow> jsval \<Rightarrow> PromptConfig list \<Rightarrow> PromptResult list
   \<Rightarrow> nat \<Rightarrow> ReflectionMetadata option \<Rightarrow> 'c world
   \<Rightarrow> (unit outcome \<times> PromptResult list \<times> nat \<times> ReflectionMetadata option) \<times> 'c world" where
  "run_prompts fuel client ag processedInput [] prs rc meta w = ((Returned (), prs, rc, meta), w)"
| "run_prompts fuel client ag processedInput (promptConfig # rest) prs rc meta w =
     (case call_beforePrompt ag promptConfig processedInput of
        Inl err \<Rightarrow> ((Threw err, prs, rc, meta), w)
      | Inr promptInput \<Rightarrow>
          (case retry_loop fuel client ag promptConfig promptInput 0 None rc meta w of
             ((NoReturn, rc', meta'), w1) \<Rightarrow> ((NoReturn, prs, rc', meta'), w1)
           | ((Threw err, rc', meta'), w1) \<Rightarrow> ((Threw err, prs, rc', meta'), w1)
           | ((Returned result, rc', meta'), w1) \<Rightarrow>
               (case call_afterPrompt ag promptConfig result of
                  Inl err \<Rightarrow> ((Threw err, prs, rc', meta'), w1)
                | Inr result' \<Rightarrow>
                    (if has_error result' \<and> rc' > maxRetries_of ag
                     then ((Returned (), push_result prs result', rc', meta'), w1)
                     else run_prompts fuel client ag processedInput rest
                            (push_result prs result') rc' meta' w1))))"

text \<open>\<^verbatim>\<open>promptResults.some(r => r.error) ? promptResults.find(r => r.error)?.error
  : undefined\<close>.\<close>

definition first_error :: "PromptResult list \<Rightarrow> error option" where
  "first_error prs =
     (case List.find (\<lambda>r. error r \<noteq> None) prs of Some r \<Rightarrow> error r | None \<Rightarrow> None)"

text \<open>The \<^verbatim>\<open>catch\<close> block of \<^verbatim>\<open>Agent.run\<close>.\<close>

definition agent_failed ::
  "Agent \<Rightarrow> error \<Rightarrow> PromptResult list \<Rightarrow> nat \<Rightarrow> 'c world \<Rightarrow> AgentRunResult outcome \<times> 'c world" where
  "agent_failed ag err prs rc w =
     (case call_onError ag err of
        Inl err' \<Rightarrow> (Threw err', w)
      | Inr u \<Rightarrow>
          (Returned \<lparr>promptResults = prs, a_tokenUsage = aggregateTokenUsage (map tokenUsage prs),
                     retryCount = rc, a_error = Some err, reflectionMetadata = None\<rparr>,
           emit (AgentRunEnd (ag_id ag) (a_name (ag_config ag))
                   \<lparr>promptResults = prs,
                    a_tokenUsage = aggregateTokenUsage (map tokenUsage prs),
                    retryCount = rc, a_error = Some err, reflectionMetadata = None\<rparr>
                   (aggregateTokenUsage (map tokenUsage prs))) w))"

definition agent_finished :: "Agent \<Rightarrow> AgentRunResult \<Rightarrow> 'c world \<Rightarrow> AgentRunResult outcome \<times> 'c world" where
  "agent_finished ag agentResult w =
     (Returned agentResult,
      emit (AgentRunEnd (ag_id ag) (a_name (ag_config ag)) agentResult (a_tokenUsage agentResult))
        w)"

text \<open>\<^verbatim>\<open>Agent.run\<close>: the \<^verbatim>\<open>beforeRun\<close> hook and the start event come before the
  \<^verbatim>\<open>try\<close>.\<close>

definition Agent_run ::
  "nat \<Rightarrow> 'c AnthropicClient \<Rightarrow> Agent \<Rightarrow> jsval \<Rightarrow> 'c world \<Rightarrow> AgentRunResult outcome \<times> 'c world" where
  "Agent_run fuel client ag inp w =
     (case (case hook_beforeRun ag of Some h \<Rightarrow> h inp | None \<Rightarrow> Inr inp) of
        Inl err \<Rightarrow> (Threw err, w)
      | Inr processedInput \<Rightarrow>
          (case run_prompts fuel client ag processedInput (prompts (ag_config ag)) [] 0 None
                  (emit (AgentRunStart (ag_id ag) (a_name (ag_config ag)) processedInput) w) of
             ((NoReturn, prs, rc, meta), w1) \<Rightarrow> (NoReturn, w1)
           | ((Threw err, prs, rc, meta), w1) \<Rightarrow> agent_failed ag err prs rc w1
           | ((Returned u, prs, rc, meta), w1) \<Rightarrow>
               (case hook_afterRun ag of
                  None \<Rightarrow>
                    agent_finished ag
                      \<lparr>promptResults = prs,
                       a_tokenUsage = aggregateTokenUsage (map tokenUsage prs),
                       retryCount = rc, a_error = first_error prs,
                       reflectionMetadata = meta\<rparr> w1
                | Some h \<Rightarrow>
                    (case h \<lparr>promptResults = prs,
                             a_tokenUsage = aggregateTokenUsage (map tokenUsage prs),
                             retryCount = rc, a_error = first_error prs,
                             reflectionMetadata = meta\<rparr> of
                       Inl err \<Rightarrow> agent_failed ag err prs rc w1
                     | Inr agentResult \<Rightarrow> agent_finished ag agentResult w1))))"

section \<open>Workflow of agents (core/agent-workflow.ts)\<close>

record WorkflowStepConfig =
  s_id :: "string option"
  s_name :: "string option"
  agents :: "AgentConfig list"

record AgentWorkflowConfig =
  wf_id :: "string option"
  wf_name :: "string option"
  steps :: "WorkflowStepConfig list"
  defaultModel :: "string option"

text \<open>An \<^verbatim>\<open>AgentWorkflow\<close>: its configuration and its tool handlers (the client is passed
  along with the run). Its node is named \<^verbatim>\<open>config.name ?? 'AgentWorkflow'\<close>.\<close>

record AgentWorkflow =
  workflowConfig :: AgentWorkflowConfig
  wf_toolHandlers :: "(string \<times> ToolHandler) list"

definition node_name :: "AgentWorkflow \<Rightarrow> string" where
  "node_name flow = (case wf_name (workflowConfig flow) of Some n \<Rightarrow> n | None \<Rightarrow> ''AgentWorkflow'')"

definition stepName_of :: "WorkflowStepConfig \<Rightarrow> string" where
  "stepName_of step =
     (case s_name step of
        Some n \<Rightarrow> n
      | None \<Rightarrow> ''step-'' @ (case s_id step of Some i \<Rightarrow> i | None \<Rightarrow> ''unknown''))"

text \<open>The loop \<^verbatim>\<open>for (const agentConfig of step.agents)\<close> of \<^verbatim>\<open>executeStep\<close>, with
  \<^verbatim>\<open>agentResults\<close> as accumulator.\<close>

fun run_agents ::
  "nat \<Rightarrow> 'c AnthropicClient \<Rightarrow> AgentWorkflow \<Rightarrow> jsval \<Rightarrow> AgentConfig list \<Rightarrow> AgentRunResult list
   \<Rightarrow> 'c world \<Rightarrow> AgentRunResult list outcome \<times> 'c world" where
  "run_agents fuel client flow inp [] results w = (Returned results, w)"
| "run_agents fuel client flow inp (agentConfig # rest) results w =
     (case new_Agent agentConfig (defaultModel (workflowConfig flow)) (wf_toolHandlers flow) w of
        (agent, w1) \<Rightarrow>
          (case Agent_run fuel client agent inp w1 of
             (NoReturn, w2) \<Rightarrow> (NoReturn, w2)
           | (Threw err, w2) \<Rightarrow> (Threw err, w2)
           | (Returned result, w2) \<Rightarrow>
               (if a_error result \<noteq> None then (Returned (results @ [result]), w2)
                else run_agents fuel client flow inp rest (results @ [result]) w2)))"

definition executeStep ::
  "nat \<Rightarrow> 'c AnthropicClient \<Rightarrow> AgentWorkflow \<Rightarrow> WorkflowStepConfig \<Rightarrow> jsval \<Rightarrow> 'c world
   \<Rightarrow> StepRunResult outcome \<times> 'c world" where
  "executeStep fuel client flow step inp w =
     (case run_agents fuel client flow inp (agents step) []
             (emit (StepStart (node_name flow) (stepName_of step)) w) of
        (NoReturn, w1) \<Rightarrow> (NoReturn, w1)
      | (Threw err, w1) \<Rightarrow> (Threw err, w1)
      | (Returned results, w1) \<Rightarrow>
          (Returned \<lparr>stepName = stepName_of step, agentResults = results\<rparr>,
           emit (StepEnd (node_name flow) (stepName_of step)) w1))"

text \<open>\<^verbatim>\<open>for (const agentResult of stepResult.agentResults)
  totalUsage = aggregateTokenUsage([totalUsage, agentResult.tokenUsage])\<close>.\<close>

definition add_step_usage :: "TokenUsage \<Rightarrow> AgentRunResult list \<Rightarrow> TokenUsage" where
  "add_step_usage totalUsage results =
     foldl (\<lambda>total r. aggregateTokenUsage [total, a_tokenUsage r]) totalUsage results"

text \<open>\<^verbatim>\<open>stepResult.agentResults.find(r => r.error)?.error\<close>.\<close>

definition step_error :: "AgentRunResult list \<Rightarrow> error option" where
  "step_error results =
     (case List.find (\<lambda>r. a_error r \<noteq> None) results of Some r \<Rightarrow> a_error r | None \<Rightarrow> None)"

text \<open>The loop \<^verbatim>\<open>for (const step of this.workflowConfig.steps)\<close> inside the \<^verbatim>\<open>try\<close> of
  \<^verbatim>\<open>AgentWorkflow.run\<close>, with \<^verbatim>\<open>stepResults\<close> and \<^verbatim>\<open>totalUsage\<close> as accumulators;
  an exception that leaves the loop goes to the \<^verbatim>\<open>catch\<close> block with both.\<close>

fun run_steps ::
  "nat \<Rightarrow> 'c AnthropicClient \<Rightarrow> AgentWorkflow \<Rightarrow> jsval \<Rightarrow> WorkflowStepConfig list
   \<Rightarrow> StepRunResult list \<Rightarrow> TokenUsage \<Rightarrow> 'c world \<Rightarrow> WorkflowRunResult outcome \<times> 'c world" where
  "run_steps fuel client flow inp [] srs totalUsage w =
     (Returned \<lparr>stepResults = srs, w_tokenUsage = totalUsage, w_error = None\<rparr>,
      setStatus completed w)"
| "run_steps fuel client flow inp (step # rest) srs totalUsage w =
     (case executeStep fuel client flow step inp w of
        (NoReturn, w1) \<Rightarrow> (NoReturn, w1)
      | (Threw err, w1) \<Rightarrow>
          (Returned \<lparr>stepResults = srs, w_tokenUsage = totalUsage, w_error = Some err\<rparr>,
           setStatus failed w1)
      | (Returned stepResult, w1) \<Rightarrow>
          (case step_error (agentResults stepResult) of
             Some stepError \<Rightarrow>
               (Returned \<lparr>stepResults = srs @ [stepResult],
                          w_tokenUsage = add_step_usage totalUsage (agentResults stepResult),
                          w_error = Some stepError\<rparr>,
                setStatus failed w1)
           | None \<Rightarrow>
               run_steps fuel client flow inp rest (srs @ [stepResult])
                 (add_step_usage totalUsage (agentResults stepResult)) w1))"

definition AgentWorkflow_run ::
  "nat \<Rightarrow> 'c AnthropicClient \<Rightarrow> AgentWorkflow \<Rightarrow> jsval \<Rightarrow> 'c world
   \<Rightarrow> WorkflowRunResult outcome \<times> 'c world" where
  "AgentWorkflow_run fuel client flow inp w =
     run_steps fuel client flow inp (steps (workflowConfig flow)) [] emptyTokenUsage
       (setStatus running w)"


section \<open>Observing a run\<close>





text \<open>In state \<open>c\<close> the client gives the answer \<open>r\<close> to whatever request it gets, and goes
  to state \<open>c'\<close>.\<close>

definition answers :: "'c AnthropicClient \<Rightarrow> 'c \<Rightarrow> error + Message \<Rightarrow> 'c \<Rightarrow> bool" where
  "answers client c r c' \<longleftrightarrow> (\<forall>params. on_createMessage client c params = (r, c'))"

definition stream_answers ::
  "'c AnthropicClient \<Rightarrow> 'c \<Rightarrow> error + MessageStream \<Rightarrow> 'c \<Rightarrow> bool" where
  "stream_answers client c s c' \<longleftrightarrow> (\<forall>params. on_createMessageStream client c params = (s, c'))"

text \<open>\<open>sends P w w'\<close>: from state \<open>w\<close> to state \<open>w'\<close> requests were sent to
  \<^verbatim>\<open>createMessage\<close>, and each of them satisfies \<open>P\<close>.\<close>

definition sends :: "(MessageParams \<Rightarrow> bool) \<Rightarrow> 'c world \<Rightarrow> 'c world \<Rightarrow> bool" where
  "sends P w w' \<longleftrightarrow> (\<exists>cs. calls w' = calls w @ cs \<and> (\<forall>c\<in>set cs. P (fst c)))"

text \<open>The tool definitions of a request of this agent: none, or one per key of the
  agent's handler registry, described as \<^verbatim>\<open>Tool: <name>\<close> with an empty object schema.\<close>

definition agent_tools :: "Agent \<Rightarrow> MessageParams \<Rightarrow> bool" where
  "agent_tools ag p \<longleftrightarrow>
     mp_tools p = None \<or>
     mp_tools p = Some (map (\<lambda>name. \<lparr>t_name = name, t_description = ''Tool: '' @ name,
                                      t_input_schema = JObj [(''type'', JStr ''object''),
                                                             (''properties'', JObj [])]\<rparr>)
                          (map fst (ag_toolHandlers ag)))"

text \<open>The same agent with another \<^verbatim>\<open>tools\<close> field in its configuration.\<close>

definition with_tools :: "ToolDefinition list option \<Rightarrow> Agent \<Rightarrow> Agent" where
  "with_tools t ag = ag\<lparr>ag_config := (ag_config ag)\<lparr>tools := t\<rparr>\<rparr>"


subsection \<open>The events of a run\<close>

text \<open>The events a run adds to those emitted before it.\<close>

definition events_since :: "'c world \<Rightarrow> 'c world \<Rightarrow> WorkflowEvent list" where
  "events_since w w' = drop (length (emitted w)) (emitted w')"

text \<open>
  Start and end events open and close scopes. \<open>scan st evs\<close> reads \<open>evs\<close> from left to
  right against the stack \<open>st\<close> of the scopes that are open, innermost first: a start event
  pushes its scope and must find the scope of its parent on top (a step at top level, an
  agent run in a step or at top level, a prompt execution in an agent run or in a
  reflection, a reflection in the run of its agent, a tool call in the prompt execution it
  names as its parent); an end event must find its own scope on top and pops it; a token
  event must find its prompt execution on top. The result is the stack after \<open>evs\<close>, or
  \<open>None\<close> when an event does not fit.
\<close>

datatype scope =
    StepScope string string
  | AgentScope ident
  | ReflectionScope ident
  | PromptScope ident
  | ToolScope ident

fun may_hold_agent :: "scope list \<Rightarrow> bool" where
  "may_hold_agent [] = True"
| "may_hold_agent (StepScope node step # st) = True"
| "may_hold_agent st = False"

fun may_hold_prompt :: "scope list \<Rightarrow> bool" where
  "may_hold_prompt [] = True"
| "may_hold_prompt (AgentScope agentId # st) = True"
| "may_hold_prompt (ReflectionScope agentId # st) = True"
| "may_hold_prompt st = False"

fun open_close :: "scope list \<Rightarrow> WorkflowEvent \<Rightarrow> scope list option" where
  "open_close st (StepStart node step) = (if st = [] then Some [StepScope node step] else None)"
| "open_close st (StepEnd node step) =
     (case st of
        s # rest \<Rightarrow> (if s = StepScope node step then Some rest else None)
      | [] \<Rightarrow> None)"
| "open_close st (AgentRunStart agentId name inp) =
     (if may_hold_agent st then Some (AgentScope agentId # st) else None)"
| "open_close st (AgentRunEnd agentId name result tu) =
     (case st of
        s # rest \<Rightarrow> (if s = AgentScope agentId then Some rest else None)
      | [] \<Rightarrow> None)"
| "open_close st (ReflectionStart agentId err) =
     (case st of
        s # rest \<Rightarrow> (if s = AgentScope agentId then Some (ReflectionScope agentId # st) else None)
      | [] \<Rightarrow> None)"
| "open_close st (ReflectionEnd agentId result) =
     (case st of
        s # rest \<Rightarrow> (if s = ReflectionScope agentId then Some rest else None)
      | [] \<Rightarrow> None)"
| "open_close st (PromptInstanceStart promptId name inp) =
     (if may_hold_prompt st then Some (PromptScope promptId # st) else None)"
| "open_close st (PromptInstanceEnd promptId name result tu) =
     (case st of
        s # rest \<Rightarrow> (if s = PromptScope promptId then Some rest else None)
      | [] \<Rightarrow> None)"
| "open_close st (PromptTokenReceived promptId token) =
     (case st of
        s # rest \<Rightarrow> (if s = PromptScope promptId then Some st else None)
      | [] \<Rightarrow> None)"
| "open_close st (ToolCallStart toolId name inp promptId) =
     (case st of
        s # rest \<Rightarrow> (if s = PromptScope promptId then Some (ToolScope toolId # st) else None)
      | [] \<Rightarrow> None)"
| "open_close st (ToolCallEnd toolId name out err promptId) =
     (case st of
        s # rest \<Rightarrow> (if s = ToolScope toolId then Some rest else None)
      | [] \<Rightarrow> None)"

fun scan :: "scope list \<Rightarrow> WorkflowEvent list \<Rightarrow> scope list option" where
  "scan st [] = Some st"
| "scan st (e # es) = (case open_close st e of None \<Rightarrow> None | Some st' \<Rightarrow> scan st' es)"

definition well_bracketed :: "WorkflowEvent list \<Rightarrow> bool" where
  "well_bracketed evs \<longleftrightarrow> scan [] evs = Some []"

text \<open>The events of the tool loop of one prompt execution: tool call events only, which
  leave the prompt's scope as they found it.\<close>

fun is_tool_event :: "WorkflowEvent \<Rightarrow> bool" where
  "is_tool_event (ToolCallStart toolId name inp promptId) = True"
| "is_tool_event (ToolCallEnd toolId name out err promptId) = True"
| "is_tool_event e = False"

definition tool_events :: "ident \<Rightarrow> WorkflowEvent list \<Rightarrow> bool" where
  "tool_events promptId evs \<longleftrightarrow>
     list_all is_tool_event evs \<and>
     (\<forall>st. scan (PromptScope promptId # st) evs = Some (PromptScope promptId # st))"

text \<open>The events of one prompt execution, by the way it ended: none when the
  \<^verbatim>\<open>beforeCall\<close> hook threw, otherwise the start event, the events of the tool loop and,
  if the execution returned, the end event with the result it returned.\<close>

definition prompt_events :: "PromptInstance \<Rightarrow> PromptResult outcome \<Rightarrow> WorkflowEvent list \<Rightarrow> bool" where
  "prompt_events inst out evs \<longleftrightarrow>
     (case out of
        Threw err \<Rightarrow> evs = []
      | NoReturn \<Rightarrow>
          (\<exists>inp tevs. evs = PromptInstanceStart (pi_id inst) (p_name (pi_config inst)) inp # tevs
                        \<and> tool_events (pi_id inst) tevs)
      | Returned r \<Rightarrow>
          (\<exists>inp tevs. evs = PromptInstanceStart (pi_id inst) (p_name (pi_config inst)) inp # tevs
                              @ [PromptInstanceEnd (pi_id inst) (p_name (pi_config inst)) r
                                   (tokenUsage r)]
                        \<and> tool_events (pi_id inst) tevs))"

text \<open>
  Counting over the events of a retry loop. The events of a reflection lie between its
  \<^verbatim>\<open>reflectionStart\<close> and \<^verbatim>\<open>reflectionEnd\<close>; \<open>outside_reflection\<close> drops them (its flag
  says whether a reflection is open). A prompt attempt is a \<^verbatim>\<open>promptInstanceStart\<close> outside
  a reflection, a failed attempt a \<^verbatim>\<open>promptInstanceEnd\<close> outside a reflection whose result
  has an error, a reflection attempt a \<^verbatim>\<open>reflectionStart\<close>. \<open>nested_reflection\<close> says that
  a reflection starts while another one is open.
\<close>

fun is_reflection_mark :: "WorkflowEvent \<Rightarrow> bool" where
  "is_reflection_mark (ReflectionStart agentId err) = True"
| "is_reflection_mark (ReflectionEnd agentId result) = True"
| "is_reflection_mark e = False"

fun is_reflection_start :: "WorkflowEvent \<Rightarrow> bool" where
  "is_reflection_start (ReflectionStart agentId err) = True"
| "is_reflection_start e = False"

fun is_prompt_start :: "WorkflowEvent \<Rightarrow> bool" where
  "is_prompt_start (PromptInstanceStart promptId name inp) = True"
| "is_prompt_start e = False"

fun is_failed_end :: "WorkflowEvent \<Rightarrow> bool" where
  "is_failed_end (PromptInstanceEnd promptId name result tu) = (error result \<noteq> None)"
| "is_failed_end e = False"

fun outside_reflection :: "bool \<Rightarrow> WorkflowEvent list \<Rightarrow> WorkflowEvent list" where
  "outside_reflection inside [] = []"
| "outside_reflection inside (ReflectionStart agentId err # evs) = outside_reflection True evs"
| "outside_reflection inside (ReflectionEnd agentId result # evs) = outside_reflection False evs"
| "outside_reflection inside (e # evs) =
     (if inside then outside_reflection inside evs else e # outside_reflection inside evs)"

fun nested_reflection :: "bool \<Rightarrow> WorkflowEvent list \<Rightarrow> bool" where
  "nested_reflection inside [] = False"
| "nested_reflection inside (ReflectionStart agentId err # evs) =
     (inside \<or> nested_reflection True evs)"
| "nested_reflection inside (ReflectionEnd agentId result # evs) = nested_reflection False evs"
| "nested_reflection inside (e # evs) = nested_reflection inside evs"

definition prompt_attempts :: "WorkflowEvent list \<Rightarrow> nat" where
  "prompt_attempts evs = length (filter is_prompt_start (outside_reflection False evs))"

definition failed_attempts :: "WorkflowEvent list \<Rightarrow> nat" where
  "failed_attempts evs = length (filter is_failed_end (outside_reflection False evs))"

definition reflection_attempts :: "WorkflowEvent list \<Rightarrow> nat" where
  "reflection_attempts evs = length (filter is_reflection_start evs)"

text \<open>A prompt whose every execution returns a result with an error.\<close>

definition always_fails :: "nat \<Rightarrow> 'c AnthropicClient \<Rightarrow> PromptConfig \<Rightarrow> bool" where
  "always_fails fuel client cfg \<longleftrightarrow>
     (\<forall>inst w. pi_config inst = cfg \<longrightarrow>
        (\<exists>r w'. PromptInstance_run fuel client inst w = (Returned r, w') \<and> error r \<noteq> None))"







section \<open>Example configurations\<close>

text \<open>A mocked client: it answers the \<open>n\<close>-th request with the \<open>n\<close>-th entry of a
  script, and rejects every request after the script's end; its state counts the requests.\<close>

definition scripted :: "(error + Message) list \<Rightarrow> nat AnthropicClient" where
  "scripted script =
     \<lparr>on_createMessage =
        (\<lambda>n params. (if n < length script then script ! n else Inl (Error ''API Error''), Suc n)),
      on_createMessageStream = (\<lambda>n params. (Inl (Error ''API Error''), n))\<rparr>"

definition initial_world :: "nat world" where
  "initial_world = \<lparr>client_state = 0, emitted = [], fresh = 0, calls = [], status = idle\<rparr>"

definition example_usage :: TokenUsage where
  "example_usage =
     \<lparr>inputTokens = 10, outputTokens = 20,
      cacheCreationInputTokens = None, cacheReadInputTokens = None\<rparr>"

definition text_response :: Message where
  "text_response =
     \<lparr>m_content = [TextBlock ''Test response''], stopReason = Some ''end_turn'',
      usage = example_usage, m_id = ''msg_123''\<rparr>"

definition example_prompt :: PromptConfig where
  "example_prompt =
     \<lparr>p_id = None, p_name = ''test'', p_system = None, user = ''Hello {{name}}!'',
      p_model = None, cacheable = None, jsonSchema = None, p_hooks = None\<rparr>"

definition example_agent_config :: AgentConfig where
  "example_agent_config =
     \<lparr>a_id = Some ''a1'', a_name = ''TestAgent'', a_model = None, prompts = [example_prompt],
      tools = None, enableReflection = None, maxRetries = None, enableCache = None,
      a_hooks = None\<rparr>"

definition example_agent :: Agent where
  "example_agent =
     \<lparr>ag_id = Given ''a1'', ag_config = example_agent_config, parentModel = None,
      ag_toolHandlers = []\<rparr>"

definition failing_hook :: "'a \<Rightarrow> error + 'b" where
  "failing_hook x = Inl (Error ''hook failed'')"

definition throwing_prompt :: PromptInstance where
  "throwing_prompt =
     \<lparr>pi_id = Given ''p1'',
      pi_config =
        example_prompt\<lparr>p_hooks := Some \<lparr>beforeCall = Some failing_hook, afterCall = None,
                                         onTool = None\<rparr>\<rparr>,
      resolvedModel = ''model-a'', pi_input = JObj [], pi_observed = True,
      pi_toolHandlers = []\<rparr>"

definition beforeRun_throwing_agent :: Agent where
  "beforeRun_throwing_agent =
     example_agent\<lparr>ag_config :=
       example_agent_config\<lparr>a_model := Some ''model-a'',
         a_hooks := Some \<lparr>beforeRun = Some failing_hook, afterRun = None, beforePrompt = None,
                          afterPrompt = None, onError = None, onReflection = None\<rparr>\<rparr>\<rparr>"

definition onError_throwing_agent :: Agent where
  "onError_throwing_agent =
     example_agent\<lparr>ag_config :=
       example_agent_config\<lparr>
         a_hooks := Some \<lparr>beforeRun = None, afterRun = None, beforePrompt = None,
                          afterPrompt = None, onError = Some failing_hook,
                          onReflection = None\<rparr>\<rparr>\<rparr>"

definition tool_use_response :: "string \<Rightarrow> jsval \<Rightarrow> Message" where
  "tool_use_response name inp =
     \<lparr>m_content = [TextBlock ''Let me check.'', ToolUseBlock ''toolu_1'' name inp],
      stopReason = Some ''tool_use'', usage = example_usage, m_id = ''msg_tool''\<rparr>"

definition example_instance :: PromptInstance where
  "example_instance =
     \<lparr>pi_id = Given ''p1'', pi_config = example_prompt, resolvedModel = ''model-a'',
      pi_input = JObj [(''name'', JStr ''World'')], pi_observed = True,
      pi_toolHandlers = [(''echo'', \<lambda>v. Inr v), (''fail'', \<lambda>v. Inl (Error ''tool failed''))]\<rparr>"

text \<open>A client that streams: it rejects \<^verbatim>\<open>createMessage\<close> and answers
  \<^verbatim>\<open>createMessageStream\<close> with the given stream.\<close>

definition streaming :: "MessageStream \<Rightarrow> nat AnthropicClient" where
  "streaming stream =
     \<lparr>on_createMessage = (\<lambda>n params. (Inl (Error ''API Error''), Suc n)),
      on_createMessageStream = (\<lambda>n params. (Inr stream, Suc n))\<rparr>"

definition broken_stream :: MessageStream where
  "broken_stream =
     \<lparr>stream_events = [OtherStreamEvent, ContentBlockDelta (TextDelta ''Hel''),
                       ContentBlockDelta OtherDelta, ContentBlockDelta (TextDelta ''lo'')],
      stream_failure = Some (Error ''connection lost''),
      finalMessage = Inl (Error ''connection lost'')\<rparr>"

definition example_tool :: ToolDefinition where
  "example_tool =
     \<lparr>td_name = ''calculator'', td_description = ''Adds numbers'',
      td_input_schema = JObj [(''type'', JStr ''object''), (''properties'', JObj [])]\<rparr>"

definition working_agent :: Agent where
  "working_agent =
     example_agent\<lparr>parentModel := Some ''model-w'',
                   ag_toolHandlers := [(''echo'', \<lambda>v. Inr v)]\<rparr>"

definition example_step :: WorkflowStepConfig where
  "example_step =
     \<lparr>s_id = None, s_name = Some ''step1'',
      agents = [example_agent_config\<lparr>a_id := Some ''a1''\<rparr>,
                example_agent_config\<lparr>a_id := Some ''a2''\<rparr>,
                example_agent_config\<lparr>a_id := Some ''a3''\<rparr>]\<rparr>"

definition one_agent_step :: "string \<Rightarrow> string \<Rightarrow> WorkflowStepConfig" where
  "one_agent_step name agentId =
     \<lparr>s_id = None, s_name = Some name,
      agents = [example_agent_config\<lparr>a_id := Some agentId\<rparr>]\<rparr>"

definition example_flow :: AgentWorkflow where
  "example_flow =
     \<lparr>workflowConfig =
        \<lparr>wf_id = None, wf_name = None, steps = [example_step, one_agent_step ''step2'' ''a4''],
         defaultModel = Some ''model-w''\<rparr>,
      wf_toolHandlers = []\<rparr>"

definition two_step_flow :: AgentWorkflow where
  "two_step_flow =
     \<lparr>workflowConfig =
        \<lparr>wf_id = None, wf_name = None,
         steps = [one_agent_step ''step1'' ''a1'', one_agent_step ''step2'' ''a2''],
         defaultModel = Some ''model-w''\<rparr>,
      wf_toolHandlers = []\<rparr>"

definition no_usage :: TokenUsage where
  "no_usage =
     \<lparr>inputTokens = 0, outputTokens = 0,
      cacheCreationInputTokens = None, cacheReadInputTokens = None\<rparr>"

definition api_failure :: PromptResult where
  "api_failure =
     \<lparr>content = [], tokenUsage = no_usage, toolCalls = [], mcpEvents = [],
      error = Some (Error ''API Error'')\<rparr>"

definition test_success :: PromptResult where
  "test_success =
     \<lparr>content = ''Test response'', tokenUsage = example_usage, toolCalls = [], mcpEvents = [],
      error = None\<rparr>"

definition failed_agent_result :: AgentRunResult where
  "failed_agent_result =
     \<lparr>promptResults = [api_failure], a_tokenUsage = no_usage, retryCount = 1,
      a_error = Some (Error ''API Error''), reflectionMetadata = None\<rparr>"

definition ok_agent_result :: AgentRunResult where
  "ok_agent_result =
     \<lparr>promptResults = [test_success], a_tokenUsage = example_usage, retryCount = 0,
      a_error = None, reflectionMetadata = None\<rparr>"

text \<open>An agent with \<^verbatim>\<open>maxRetries: 1\<close> and \<^verbatim>\<open>enableReflection: true\<close>, and the events of
  its retry loop when every request is rejected.\<close>

definition reflecting_agent :: Agent where
  "reflecting_agent =
     example_agent\<lparr>ag_config := example_agent_config\<lparr>a_model := Some ''model-a'',
                                    enableReflection := Some True, maxRetries := Some 1\<rparr>\<rparr>"

definition reflecting_events :: "WorkflowEvent list" where
  "reflecting_events =
     [PromptInstanceStart (Generated 0) ''test'' (JObj [(''name'', JStr ''World'')]),
      PromptInstanceEnd (Generated 0) ''test'' api_failure no_usage,
      ReflectionStart (Given ''a1'') (Some (Error ''API Error'')),
      PromptInstanceStart (Generated 1) ''reflection''
        (JObj [(''originalPrompt'', JStr ''Hello {{name}}!''), (''originalResult'', JStr []),
               (''error'', JStr ''Error: API Error'')]),
      PromptInstanceEnd (Generated 1) ''reflection'' api_failure no_usage,
      ReflectionEnd (Given ''a1'') api_failure,
      PromptInstanceStart (Generated 2) ''test'' (JObj [(''name'', JStr ''World'')]),
      PromptInstanceEnd (Generated 2) ''test'' api_failure no_usage]"

text \<open>The events of \<open>two_step_flow\<close> when both requests are answered, and an agent whose
  only model is the one of its prompt.\<close>

definition two_step_events :: "WorkflowEvent list" where
  "two_step_events =
     [StepStart ''AgentWorkflow'' ''step1'',
      AgentRunStart (Given ''a1'') ''TestAgent'' (JObj []),
      PromptInstanceStart (Generated 0) ''test'' (JObj []),
      PromptInstanceEnd (Generated 0) ''test'' test_success example_usage,
      AgentRunEnd (Given ''a1'') ''TestAgent'' ok_agent_result example_usage,
      StepEnd ''AgentWorkflow'' ''step1'',
      StepStart ''AgentWorkflow'' ''step2'',
      AgentRunStart (Given ''a2'') ''TestAgent'' (JObj []),
      PromptInstanceStart (Generated 1) ''test'' (JObj []),
      PromptInstanceEnd (Generated 1) ''test'' test_success example_usage,
      AgentRunEnd (Given ''a2'') ''TestAgent'' ok_agent_result example_usage,
      StepEnd ''AgentWorkflow'' ''step2'']"

definition prompt_model_agent :: Agent where
  "prompt_model_agent =
     example_agent\<lparr>ag_config :=
       example_agent_config\<lparr>prompts := [example_prompt\<lparr>p_model := Some ''model-p''\<rparr>],
                            enableReflection := Some True, maxRetries := Some 1\<rparr>\<rparr>"

section \<open>Evaluating a run\<close>

text \<open>The definitions that evaluate a run on a concrete input.\<close>

lemmas run_defs =
  Agent_run_def run_prompts.simps retry_loop.simps tool_loop.simps PromptInstance_run_def
  run_body_def run_failed_def run_finished_def new_PromptInstance_def generateId_def
  createMessage_def pi_emit_def emit_def request_def tool_definitions_def systemContent_of_def
  interpolation_context_def hook_beforeCall_def hook_afterCall_def hook_onTool_def
  hook_beforeRun_def hook_afterRun_def hook_beforePrompt_def hook_afterPrompt_def
  hook_onError_def hook_onReflection_def call_onError_def call_beforePrompt_def
  call_afterPrompt_def resolveModel_def maxRetries_of_def reflection_enabled_def
  agent_failed_def agent_finished_def has_error_def push_result_def first_error_def
  textContent_def List.map_filter_simps reflect_def error_text_def new_Agent_def
  run_agents.simps executeStep_def run_steps.simps AgentWorkflow_run_def setStatus_def
  node_name_def stepName_of_def step_error_def add_step_usage_def aggregateTokenUsage_def
  add_usage_def emptyTokenUsage_def match_at_def replacer_def trim_def is_space_def

lemmas example_defs =
  scripted_def initial_world_def example_usage_def text_response_def example_prompt_def
  example_agent_config_def example_agent_def working_agent_def tool_use_response_def
  example_instance_def no_model_def example_step_def one_agent_step_def example_flow_def
  two_step_flow_def no_usage_def api_failure_def test_success_def failed_agent_result_def
  ok_agent_result_def reflecting_agent_def reflecting_events_def two_step_events_def
  prompt_model_agent_def

section \<open>Token aggregation\<close>

















section \<open>Interpolation\<close>










section \<open>Exceptions and the run methods\<close>

lemma run_steps_never_throws:
  "fst (run_steps fuel client flow inp sts srs tot w) \<noteq> Threw e"
proof (induction sts arbitrary: srs tot w)
  case Nil
  show ?case by simp
next
  case (Cons step rest)
  show ?case
  proof (cases "executeStep fuel client flow step inp w")
    case (Pair out w1)
    show ?thesis
    proof (cases out)
      case (Returned stepResult)
      then show ?thesis
        using Pair Cons.IH by (simp split: option.splits)
    next
      case (Threw err)
      then show ?thesis using Pair by simp
    next
      case NoReturn
      then show ?thesis using Pair by simp
    qed
  qed
qed

lemma AgentWorkflow_run_never_throws:
  "fst (AgentWorkflow_run fuel client flow inp w) \<noteq> Threw e"
  by (simp add: AgentWorkflow_run_def run_steps_never_throws)

text \<open>
  C1. The claim is that no exception escapes \<^verbatim>\<open>PromptInstance.run\<close>, \<^verbatim>\<open>Agent.run\<close> or
  \<^verbatim>\<open>AgentWorkflow.run\<close>, whatever the hooks do. The code calls \<^verbatim>\<open>beforeCall\<close> and
  \<^verbatim>\<open>beforeRun\<close> before its \<^verbatim>\<open>try\<close>, and \<^verbatim>\<open>onError\<close> inside the \<^verbatim>\<open>catch\<close>: an
  exception of one of these hooks escapes the run, for every client and every state. (No
  exception escapes \<^verbatim>\<open>AgentWorkflow.run\<close>: \<open>AgentWorkflow_run_never_throws\<close>.)
\<close>

theorem hook_exception_escapes_run:
  "PromptInstance_run fuel client throwing_prompt w = (Threw (Error ''hook failed''), w)
   \<and> Agent_run fuel client beforeRun_throwing_agent inp w = (Threw (Error ''hook failed''), w)
   \<and> fst (Agent_run fuel client onError_throwing_agent inp w) = Threw (Error ''hook failed'')"
proof -
  have prompt: "PromptInstance_run fuel client throwing_prompt w =
      (Threw (Error ''hook failed''), w)"
    by (simp add: PromptInstance_run_def throwing_prompt_def hook_beforeCall_def
        failing_hook_def example_prompt_def)
  have before: "Agent_run fuel client beforeRun_throwing_agent inp w =
      (Threw (Error ''hook failed''), w)"
    by (simp add: Agent_run_def beforeRun_throwing_agent_def hook_beforeRun_def
        failing_hook_def example_agent_def example_agent_config_def)
  have unresolved: "resolveModel onError_throwing_agent (p_model example_prompt) = Inl no_model"
    by (simp add: resolveModel_def onError_throwing_agent_def example_agent_def
        example_agent_config_def example_prompt_def)
  have loop: "retry_loop fuel client onError_throwing_agent example_prompt inp 0 None 0 None w' =
      ((Threw no_model, 0, None), w')" for w'
    by (simp add: retry_loop.simps unresolved)
  have "fst (Agent_run fuel client onError_throwing_agent inp w) = Threw (Error ''hook failed'')"
    by (simp add: Agent_run_def hook_beforeRun_def call_beforePrompt_def hook_beforePrompt_def
        loop agent_failed_def call_onError_def hook_onError_def failing_hook_def
        onError_throwing_agent_def [THEN arg_cong, of ag_config]
        example_agent_def example_agent_config_def)
  with prompt before show ?thesis by simp
qed

section \<open>Model resolution\<close>

lemma Agent_run_unresolved_model:
  assumes "prompts (ag_config ag) = promptConfig # rest"
    and "resolveModel ag (p_model promptConfig) = Inl e"
    and "(case hook_beforeRun ag of Some h \<Rightarrow> h inp | None \<Rightarrow> Inr inp) = Inr processedInput"
    and "call_beforePrompt ag promptConfig processedInput = Inr promptInput"
    and "call_onError ag e = Inr ()"
  shows "\<exists>r w'. Agent_run fuel client ag inp w = (Returned r, w') \<and> a_error r = Some e \<and>
           promptResults r = []"
  using assms by (simp add: Agent_run_def agent_failed_def retry_loop.simps)

text \<open>
  C3, as stated, fails on a model that is present but empty: \<^verbatim>\<open>??\<close> keeps the empty
  string of the prompt, and \<^verbatim>\<open>if (!model)\<close> then throws, although the agent and the
  workflow both name a model.
\<close>

theorem resolveModel_empty_override_counterexample:
  "nullish (Some []) (nullish (Some ''model-a'') (Some ''model-w'')) = Some []
   \<and> resolveModel
        (example_agent\<lparr>ag_config := example_agent_config\<lparr>a_model := Some ''model-a''\<rparr>,
                       parentModel := Some ''model-w''\<rparr>)
        (Some []) = Inl no_model"
  by (simp add: resolveModel_def example_agent_def example_agent_config_def)

text \<open>
  C3, amended. The model of a prompt execution is the first present of the prompt's
  override, the agent's default and the inherited workflow default, when that one is a
  non-empty string; when all three are absent, and also when the first present one is the
  empty string, resolution fails with the error \<^verbatim>\<open>No model configured...\<close>. When
  resolution fails for the first prompt of an agent whose \<^verbatim>\<open>beforeRun\<close>,
  \<^verbatim>\<open>beforePrompt\<close> and \<^verbatim>\<open>onError\<close> hooks (if any) return, \<^verbatim>\<open>Agent.run\<close> returns a
  result whose error is that error and whose \<^verbatim>\<open>promptResults\<close> is empty.
\<close>

theorem resolveModel_priority:
  "(promptModel = Some m \<and> m \<noteq> [] \<longrightarrow> resolveModel ag promptModel = Inr m)
   \<and> (promptModel = None \<and> a_model (ag_config ag) = Some m \<and> m \<noteq> [] \<longrightarrow>
        resolveModel ag promptModel = Inr m)
   \<and> (promptModel = None \<and> a_model (ag_config ag) = None \<and> parentModel ag = Some m \<and> m \<noteq> [] \<longrightarrow>
        resolveModel ag promptModel = Inr m)
   \<and> (promptModel = None \<and> a_model (ag_config ag) = None \<and> parentModel ag = None \<longrightarrow>
        resolveModel ag promptModel = Inl no_model)
   \<and> (nullish promptModel (nullish (a_model (ag_config ag)) (parentModel ag)) = Some [] \<longrightarrow>
        resolveModel ag promptModel = Inl no_model)
   \<and> (prompts (ag_config ag) = promptConfig # rest
        \<and> resolveModel ag (p_model promptConfig) = Inl no_model
        \<and> (case hook_beforeRun ag of Some h \<Rightarrow> h inp | None \<Rightarrow> Inr inp) = Inr processedInput
        \<and> call_beforePrompt ag promptConfig processedInput = Inr promptInput
        \<and> call_onError ag no_model = Inr () \<longrightarrow>
        (\<exists>r w'. Agent_run fuel client ag inp w = (Returned r, w') \<and> a_error r = Some no_model \<and>
                 promptResults r = []))"
proof -
  have cascade:
    "(promptModel = Some m \<and> m \<noteq> [] \<longrightarrow> resolveModel ag promptModel = Inr m)
     \<and> (promptModel = None \<and> a_model (ag_config ag) = Some m \<and> m \<noteq> [] \<longrightarrow>
          resolveModel ag promptModel = Inr m)
     \<and> (promptModel = None \<and> a_model (ag_config ag) = None \<and> parentModel ag = Some m \<and> m \<noteq> [] \<longrightarrow>
          resolveModel ag promptModel = Inr m)
     \<and> (promptModel = None \<and> a_model (ag_config ag) = None \<and> parentModel ag = None \<longrightarrow>
          resolveModel ag promptModel = Inl no_model)
     \<and> (nullish promptModel (nullish (a_model (ag_config ag)) (parentModel ag)) = Some [] \<longrightarrow>
          resolveModel ag promptModel = Inl no_model)"
    by (auto simp: resolveModel_def)
  show ?thesis
    using cascade
      Agent_run_unresolved_model [of ag promptConfig rest no_model inp processedInput promptInput
        fuel client w]
    by blast
qed

theorem resolveModel_priority_witness:
  "resolveModel (example_agent\<lparr>parentModel := Some ''model-w''\<rparr>) (Some ''model-p'') =
     Inr ''model-p''
   \<and> resolveModel (example_agent\<lparr>parentModel := Some ''model-w''\<rparr>) None = Inr ''model-w''
   \<and> prompts (ag_config example_agent) = example_prompt # []
   \<and> p_model example_prompt = None \<and> a_model (ag_config example_agent) = None
   \<and> parentModel example_agent = None
   \<and> resolveModel example_agent (p_model example_prompt) = Inl no_model
   \<and> call_beforePrompt example_agent example_prompt (JObj []) = Inr (JObj [])
   \<and> call_onError example_agent no_model = Inr ()
   \<and> (\<exists>r w'. Agent_run 0 (scripted [Inr text_response]) example_agent (JObj []) initial_world =
                 (Returned r, w') \<and> a_error r = Some no_model \<and> promptResults r = [])"
  using resolveModel_priority
    [of "Some ''model-p''" "''model-p''" "example_agent\<lparr>parentModel := Some ''model-w''\<rparr>"
        example_prompt "[]" "JObj []" "JObj []" "JObj []" 0 "scripted [Inr text_response]"
        initial_world]
    resolveModel_priority
    [of None "''model-w''" "example_agent\<lparr>parentModel := Some ''model-w''\<rparr>"
        example_prompt "[]" "JObj []" "JObj []" "JObj []" 0 "scripted [Inr text_response]"
        initial_world]
    resolveModel_priority
    [of None "''model-w''" example_agent
        example_prompt "[]" "JObj []" "JObj []" "JObj []" 0 "scripted [Inr text_response]"
        initial_world]
  by (simp add: example_agent_def example_agent_config_def example_prompt_def
      resolveModel_def call_beforePrompt_def hook_beforePrompt_def hook_beforeRun_def
      call_onError_def hook_onError_def)

section \<open>The tool loop\<close>

lemma emit_fields [simp]:
  "emitted (emit e w) = emitted w @ [e]" "calls (emit e w) = calls w"
  "client_state (emit e w) = client_state w" "fresh (emit e w) = fresh w"
  "status (emit e w) = status w"
  by (simp_all add: emit_def)

lemma pi_emit_fields [simp]:
  "calls (pi_emit inst e w) = calls w"
  "client_state (pi_emit inst e w) = client_state w" "fresh (pi_emit inst e w) = fresh w"
  "status (pi_emit inst e w) = status w"
  by (simp_all add: pi_emit_def)

lemma generateId_fields [simp]:
  "emitted (snd (generateId w)) = emitted w" "calls (snd (generateId w)) = calls w"
  "client_state (snd (generateId w)) = client_state w"
  "status (snd (generateId w)) = status w"
  by (simp_all add: generateId_def)

lemma createMessage_fields [simp]:
  "emitted (snd (createMessage client params w)) = emitted w"
  "calls (snd (createMessage client params w)) = calls w @ [(params, fst (createMessage client params w))]"
  "status (snd (createMessage client params w)) = status w"
  "fresh (snd (createMessage client params w)) = fresh w"
  by (simp_all add: createMessage_def split: prod.splits)

lemma createMessage_eq:
  "on_createMessage client (client_state w) params = (r, c') \<Longrightarrow>
   createMessage client params w = (r, w\<lparr>client_state := c', calls := calls w @ [(params, r)]\<rparr>)"
  by (simp add: createMessage_def)

lemma process_blocks_frame:
  "process_blocks inst bs tcs trs w = ((tcs', trs'), w') \<Longrightarrow>
     calls w' = calls w \<and> client_state w' = client_state w \<and> status w' = status w"
proof (induction inst bs tcs trs w rule: process_blocks.induct)
  case (4 inst bid name inp bs tcs trs w)
  then show ?case
    by (auto split: prod.splits simp: generateId_def)
qed simp_all



lemma run_failed_calls [simp]: "calls (snd (run_failed inst err tu tcs w)) = calls w"
  by (simp add: run_failed_def)

lemma run_finished_calls [simp]: "calls (snd (run_finished inst result w)) = calls w"
  by (simp add: run_finished_def)



lemma createMessage_answers:
  "answers client (client_state w) r c' \<Longrightarrow>
   createMessage client params w = (r, w\<lparr>client_state := c', calls := calls w @ [(params, r)]\<rparr>)"
  by (simp add: answers_def createMessage_def)






section \<open>Streaming\<close>

lemma streaming_failed_shape:
  "streaming_failed inst err tokens tu w = ((ys, ex), w') \<Longrightarrow>
   \<exists>r. ys = map Token tokens @ [Result r] \<and> content r = concat tokens \<and> error r = Some err"
  by (auto simp: streaming_failed_def)

lemma streaming_finished_shape:
  "streaming_finished inst finalResult tokens w = ((ys, ex), w') \<Longrightarrow>
   ys = map Token tokens @ [Result finalResult]"
  by (auto simp: streaming_finished_def)

lemma runStreaming_content:
  assumes run: "PromptInstance_runStreaming client inst w = ((ys, None), w')"
    and keep: "\<forall>h res res'. hook_afterCall (pi_config inst) = Some h \<and> h res = Inr res' \<longrightarrow>
                 content res' = content res"
  shows "\<exists>tokens r. ys = map Token tokens @ [Result r] \<and> content r = concat tokens"
proof -
  from run obtain processedInput where
    before: "(case hook_beforeCall (pi_config inst) of
                Some h \<Rightarrow> h (pi_input inst)
              | None \<Rightarrow> Inr (pi_input inst)) = Inr processedInput"
    by (auto simp: PromptInstance_runStreaming_def split: sum.splits)
  let ?w0 = "pi_emit inst (PromptInstanceStart (pi_id inst) (p_name (pi_config inst)) processedInput) w"
  let ?req = "request inst
                (systemContent_of (pi_config inst) (interpolation_context processedInput))
                [UserMessage (interpolate (user (pi_config inst))
                                (interpolation_context processedInput))] None"
  obtain s w1 where cms: "createMessageStream client ?req ?w0 = (s, w1)"
    by (cases "createMessageStream client ?req ?w0")
  show ?thesis
  proof (cases s)
    case (Inl err)
    with run before cms show ?thesis
      by (auto simp: PromptInstance_runStreaming_def dest!: streaming_failed_shape)
  next
    case (Inr stream)
    let ?tokens = "List.map_filter delta_token (stream_events stream)"
    show ?thesis
    proof (cases "stream_failure stream")
      case (Some err)
      with run before cms Inr show ?thesis
        by (auto simp: PromptInstance_runStreaming_def dest!: streaming_failed_shape)
    next
      case None
      show ?thesis
      proof (cases "finalMessage stream")
        case (Inl err)
        with run before cms Inr None show ?thesis
          by (auto simp: PromptInstance_runStreaming_def dest!: streaming_failed_shape)
      next
        case fm: (Inr counts)
        obtain i o' where counts: "counts = (i, o')" by (cases counts)
        show ?thesis
        proof (cases "hook_afterCall (pi_config inst)")
          case None
          with run before cms Inr \<open>stream_failure stream = None\<close> fm counts show ?thesis
            by (auto simp: PromptInstance_runStreaming_def dest!: streaming_finished_shape)
        next
          case (Some h)
          let ?res = "\<lparr>content = concat ?tokens,
                        tokenUsage = \<lparr>inputTokens = i, outputTokens = o',
                                      cacheCreationInputTokens = None,
                                      cacheReadInputTokens = None\<rparr>,
                        toolCalls = [], mcpEvents = [], error = None\<rparr>"
          show ?thesis
          proof (cases "h ?res")
            case (Inl err)
            with run before cms Inr \<open>stream_failure stream = None\<close> fm counts Some show ?thesis
              by (auto simp: PromptInstance_runStreaming_def dest!: streaming_failed_shape)
          next
            case (Inr finalResult)
            with keep Some have "content finalResult = concat ?tokens"
              by fastforce
            with run before cms \<open>s = Inr stream\<close> \<open>stream_failure stream = None\<close> fm counts Some Inr
            show ?thesis
              by (auto simp: PromptInstance_runStreaming_def dest!: streaming_finished_shape)
          qed
        qed
      qed
    qed
  qed
qed

lemma runStreaming_stream_failure:
  assumes "(case hook_beforeCall (pi_config inst) of
              Some h \<Rightarrow> h (pi_input inst)
            | None \<Rightarrow> Inr (pi_input inst)) = Inr processedInput"
    and "stream_answers client (client_state w) (Inr stream) c'"
    and "stream_failure stream = Some err"
  shows "\<exists>r w'. PromptInstance_runStreaming client inst w =
                  ((map Token (List.map_filter delta_token (stream_events stream)) @ [Result r],
                    None), w')
               \<and> error r = Some err
               \<and> content r = concat (List.map_filter delta_token (stream_events stream))"
  using assms
  by (simp add: PromptInstance_runStreaming_def createMessageStream_def stream_answers_def
      pi_emit_def emit_def streaming_failed_def)

lemma run_rejected:
  assumes "(case hook_beforeCall (pi_config inst) of
              Some h \<Rightarrow> h (pi_input inst)
            | None \<Rightarrow> Inr (pi_input inst)) = Inr processedInput"
    and "answers client (client_state w) (Inl err) c'"
  shows "\<exists>r w'. PromptInstance_run fuel client inst w = (Returned r, w')
               \<and> content r = [] \<and> error r = Some err"
  using assms
  by (simp add: PromptInstance_run_def run_body_def createMessage_answers run_failed_def)

text \<open>
  C10. Read to its end, a streamed prompt execution yields token items and then one
  result; when the \<^verbatim>\<open>afterCall\<close> hook (if any) keeps the content, the content of that
  result is the concatenation, in order, of the tokens yielded before it. When the stream
  fails after some tokens, the final result carries the error and the content streamed so
  far; the result of a failed non-streaming execution has empty content.
\<close>

theorem streamed_content_is_concatenation:
  "(PromptInstance_runStreaming client inst w = ((ys, None), w')
      \<and> (\<forall>h res res'. hook_afterCall (pi_config inst) = Some h \<and> h res = Inr res' \<longrightarrow>
             content res' = content res) \<longrightarrow>
      (\<exists>tokens r. ys = map Token tokens @ [Result r] \<and> content r = concat tokens))
   \<and> ((case hook_beforeCall (pi_config inst) of
          Some h \<Rightarrow> h (pi_input inst)
        | None \<Rightarrow> Inr (pi_input inst)) = Inr processedInput
       \<and> stream_answers client (client_state w) (Inr stream) c'
       \<and> stream_failure stream = Some err \<longrightarrow>
       (\<exists>r w''. PromptInstance_runStreaming client inst w =
                  ((map Token (List.map_filter delta_token (stream_events stream)) @ [Result r],
                    None), w'')
               \<and> error r = Some err
               \<and> content r = concat (List.map_filter delta_token (stream_events stream))))
   \<and> ((case hook_beforeCall (pi_config inst) of
          Some h \<Rightarrow> h (pi_input inst)
        | None \<Rightarrow> Inr (pi_input inst)) = Inr processedInput
       \<and> answers client (client_state w) (Inl err) c' \<longrightarrow>
       (\<exists>r w''. PromptInstance_run fuel client inst w = (Returned r, w'')
               \<and> content r = [] \<and> error r = Some err))"
proof -
  have first: "PromptInstance_runStreaming client inst w = ((ys, None), w')
      \<and> (\<forall>h res res'. hook_afterCall (pi_config inst) = Some h \<and> h res = Inr res' \<longrightarrow>
             content res' = content res) \<longrightarrow>
      (\<exists>tokens r. ys = map Token tokens @ [Result r] \<and> content r = concat tokens)"
    using runStreaming_content [of client inst w ys w'] by blast
  show ?thesis
    using first
      runStreaming_stream_failure [of inst processedInput client w stream c' err]
      run_rejected [of inst processedInput client w err c' fuel]
    by blast
qed

theorem streamed_content_is_concatenation_witness:
  "hook_afterCall (pi_config example_instance) = None
   \<and> stream_answers (streaming broken_stream) 0 (Inr broken_stream) 1
   \<and> stream_failure broken_stream = Some (Error ''connection lost'')
   \<and> answers (streaming broken_stream) 0 (Inl (Error ''API Error'')) 1
   \<and> (\<exists>r w''. PromptInstance_runStreaming (streaming broken_stream) example_instance
                  initial_world = (([Token ''Hel'', Token ''lo'', Result r], None), w'')
               \<and> error r = Some (Error ''connection lost'') \<and> content r = ''Hello''
               \<and> (\<exists>tokens r'. [Token ''Hel'', Token ''lo'', Result r] =
                      map Token tokens @ [Result r'] \<and> content r' = concat tokens))
   \<and> (\<exists>r w''. PromptInstance_run 0 (streaming broken_stream) example_instance initial_world =
                  (Returned r, w'')
               \<and> content r = [] \<and> error r = Some (Error ''API Error''))"
proof -
  have hooks: "hook_afterCall (pi_config example_instance) = None"
    "(case hook_beforeCall (pi_config example_instance) of
        Some h \<Rightarrow> h (pi_input example_instance)
      | None \<Rightarrow> Inr (pi_input example_instance)) = Inr (pi_input example_instance)"
    by (simp_all add: hook_beforeCall_def hook_afterCall_def example_instance_def
        example_prompt_def)
  have client: "stream_answers (streaming broken_stream) 0 (Inr broken_stream) 1"
    "answers (streaming broken_stream) 0 (Inl (Error ''API Error'')) 1"
    by (simp_all add: stream_answers_def answers_def streaming_def)
  have fails: "stream_failure broken_stream = Some (Error ''connection lost'')"
    and tokens: "List.map_filter delta_token (stream_events broken_stream) = [''Hel'', ''lo'']"
    by (simp_all add: broken_stream_def List.map_filter_simps)
  have start: "client_state initial_world = 0"
    by (simp add: initial_world_def)
  from streamed_content_is_concatenation
    [of "streaming broken_stream" example_instance initial_world undefined undefined
        "pi_input example_instance" broken_stream 1 "Error ''connection lost''" 0]
    hooks client(1) fails start tokens
  obtain r w'' where
    run: "PromptInstance_runStreaming (streaming broken_stream) example_instance initial_world =
            (([Token ''Hel'', Token ''lo'', Result r], None), w'')"
    and r: "error r = Some (Error ''connection lost'')" "content r = ''Hello''"
    by auto
  have shape: "\<exists>tokens r'. [Token ''Hel'', Token ''lo'', Result r] =
                   map Token tokens @ [Result r'] \<and> content r' = concat tokens"
    using streamed_content_is_concatenation
      [of "streaming broken_stream" example_instance initial_world
          "[Token ''Hel'', Token ''lo'', Result r]" w''] run hooks(1)
    by simp
  from streamed_content_is_concatenation
    [of "streaming broken_stream" example_instance initial_world undefined undefined
        "pi_input example_instance" broken_stream 1 "Error ''API Error''" 0]
    hooks client(2) start
  obtain r2 w2 where
    run2: "PromptInstance_run 0 (streaming broken_stream) example_instance initial_world =
             (Returned r2, w2)"
    and r2: "content r2 = []" "error r2 = Some (Error ''API Error'')"
    by auto
  show ?thesis
    using hooks(1) client fails run r shape run2 r2 by blast
qed

section \<open>What an agent run reads and sends\<close>

lemma with_tools_hooks:
  "ag_id (with_tools t ag) = ag_id ag"
  "a_name (ag_config (with_tools t ag)) = a_name (ag_config ag)"
  "prompts (ag_config (with_tools t ag)) = prompts (ag_config ag)"
  "ag_toolHandlers (with_tools t ag) = ag_toolHandlers ag"
  "hook_beforeRun (with_tools t ag) = hook_beforeRun ag"
  "hook_afterRun (with_tools t ag) = hook_afterRun ag"
  "hook_onReflection (with_tools t ag) = hook_onReflection ag"
  "hook_onError (with_tools t ag) = hook_onError ag"
  "hook_beforePrompt (with_tools t ag) = hook_beforePrompt ag"
  "hook_afterPrompt (with_tools t ag) = hook_afterPrompt ag"
  "maxRetries_of (with_tools t ag) = maxRetries_of ag"
  "reflection_enabled (with_tools t ag) = reflection_enabled ag"
  by (simp_all add: with_tools_def hook_beforeRun_def hook_afterRun_def hook_onReflection_def
      hook_onError_def hook_beforePrompt_def hook_afterPrompt_def maxRetries_of_def
      reflection_enabled_def)

lemma with_tools_calls:
  "call_onError (with_tools t ag) e = call_onError ag e"
  "call_beforePrompt (with_tools t ag) promptConfig inp = call_beforePrompt ag promptConfig inp"
  "call_afterPrompt (with_tools t ag) promptConfig result = call_afterPrompt ag promptConfig result"
  unfolding call_onError_def call_beforePrompt_def call_afterPrompt_def with_tools_hooks
  by (rule refl)+

lemma resolveModel_with_tools:
  "resolveModel (with_tools t ag) promptModel = resolveModel ag promptModel"
  by (simp add: resolveModel_def with_tools_def)

lemmas with_tools_reads = with_tools_hooks with_tools_calls resolveModel_with_tools

lemma reflect_with_tools:
  "reflect fuel client (with_tools t ag) promptConfig failedResult overrideModel w =
   reflect fuel client ag promptConfig failedResult overrideModel w"
  unfolding reflect_def with_tools_reads by (rule refl)

lemma retry_loop_with_tools:
  "retry_loop fuel client (with_tools t ag) promptConfig promptInput attempts result rc meta w =
   retry_loop fuel client ag promptConfig promptInput attempts result rc meta w"
proof (induction "Suc (maxRetries_of ag) - attempts" arbitrary: attempts result rc meta w)
  case 0
  then have "\<not> attempts \<le> maxRetries_of ag" by simp
  then show ?case
    by (simp add: retry_loop.simps [of _ _ _ _ _ attempts] with_tools_hooks)
next
  case (Suc n)
  show ?case
  proof (cases "attempts \<le> maxRetries_of ag")
    case False
    then show ?thesis
      by (simp add: retry_loop.simps [of _ _ _ _ _ attempts] with_tools_hooks)
  next
    case True
    with Suc.hyps(2) have "n = Suc (maxRetries_of ag) - Suc attempts" by simp
    note IH = Suc.hyps(1) [OF this]
    show ?thesis
      unfolding retry_loop.simps [of fuel client "with_tools t ag" promptConfig promptInput attempts]
        retry_loop.simps [of fuel client ag promptConfig promptInput attempts]
        with_tools_reads reflect_with_tools IH
      by (rule refl)
  qed
qed

lemma run_prompts_with_tools:
  "run_prompts fuel client (with_tools t ag) processedInput ps prs rc meta w =
   run_prompts fuel client ag processedInput ps prs rc meta w"
proof (induction ps arbitrary: prs rc meta w)
  case Nil
  show ?case by simp
next
  case (Cons promptConfig rest)
  show ?case
    unfolding run_prompts.simps with_tools_reads retry_loop_with_tools Cons.IH
    by (rule refl)
qed

lemma Agent_run_with_tools:
  "Agent_run fuel client (with_tools t ag) inp w = Agent_run fuel client ag inp w"
  unfolding Agent_run_def agent_failed_def agent_finished_def with_tools_reads
    run_prompts_with_tools
  by (rule refl)

lemma sends_refl: "calls w' = calls w \<Longrightarrow> sends P w w'"
  by (simp add: sends_def)

lemma sends_trans: "sends P w w1 \<Longrightarrow> sends P w1 w2 \<Longrightarrow> sends P w w2"
  by (auto simp: sends_def)

lemma sends_mono: "sends P w w' \<Longrightarrow> (\<And>p. P p \<Longrightarrow> Q p) \<Longrightarrow> sends Q w w'"
  by (auto simp: sends_def)

lemma sends_createMessage:
  "createMessage client params w = (r, w') \<Longrightarrow> P params \<Longrightarrow> sends P w w'"
  using createMessage_fields(2) [of client params w] by (auto simp: sends_def)

lemma sends_process_blocks:
  "process_blocks inst bs tcs trs w = ((tcs', trs'), w') \<Longrightarrow> sends P w w'"
  using process_blocks_frame by (blast intro: sends_refl)

lemma tool_loop_sends:
  "tool_loop fuel client inst sys tls response msgs tu tcs w = (x, w') \<Longrightarrow>
   sends (\<lambda>p. mp_tools p = tls) w w'"
proof (induction fuel arbitrary: response msgs tu tcs w)
  case 0
  then show ?case
    by (auto simp: tool_loop.simps split: if_splits intro: sends_refl)
next
  case (Suc fuel)
  show ?case
  proof (cases "stopReason response = Some ''tool_use''")
    case False
    with Suc.prems show ?thesis
      by (auto simp: tool_loop.simps intro: sends_refl)
  next
    case True
    obtain tcs1 trs w1 where pb: "process_blocks inst (m_content response) tcs [] w = ((tcs1, trs), w1)"
      by (metis surj_pair)
    let ?msgs = "msgs @ [AssistantMessage (m_content response), ToolResultMessage trs]"
    obtain r w2 where cm: "createMessage client (request inst sys ?msgs tls) w1 = (r, w2)"
      by (cases "createMessage client (request inst sys ?msgs tls) w1")
    have "sends (\<lambda>p. mp_tools p = tls) w w1"
      by (rule sends_process_blocks [OF pb])
    moreover have "sends (\<lambda>p. mp_tools p = tls) w1 w2"
      by (rule sends_createMessage [OF cm]) (simp add: request_def)
    ultimately have s2: "sends (\<lambda>p. mp_tools p = tls) w w2"
      by (rule sends_trans)
    show ?thesis
    proof (cases r)
      case (Inl err)
      with Suc.prems True pb cm have "w' = w2"
        by (simp add: tool_loop.simps)
      with s2 show ?thesis by simp
    next
      case (Inr response')
      with Suc.prems True pb cm
      have "tool_loop fuel client inst sys tls response' ?msgs
              (aggregateTokenUsage [tu, usage response']) tcs1 w2 = (x, w')"
        by (simp add: tool_loop.simps)
      from Suc.IH [OF this] s2 show ?thesis
        by (rule sends_trans [rotated])
    qed
  qed
qed

lemma run_body_sends:
  assumes "run_body fuel client inst processedInput w = (out, w')"
  shows "sends (\<lambda>p. mp_tools p = tool_definitions (pi_toolHandlers inst)) w w'"
proof -
  let ?ctx = "interpolation_context processedInput"
  let ?sys = "systemContent_of (pi_config inst) ?ctx"
  let ?msgs = "[UserMessage (interpolate (user (pi_config inst)) ?ctx)]"
  let ?tls = "tool_definitions (pi_toolHandlers inst)"
  let ?P = "\<lambda>p. mp_tools p = ?tls"
  obtain r1 w1 where cm: "createMessage client (request inst ?sys ?msgs ?tls) w = (r1, w1)"
    by (cases "createMessage client (request inst ?sys ?msgs ?tls) w")
  have s1: "sends ?P w w1"
    using sends_createMessage [OF cm] by (simp add: request_def)
  show ?thesis
  proof (cases r1)
    case (Inl err)
    with assms cm have "calls w' = calls w1"
      by (auto simp: run_body_def run_failed_def)
    with s1 show ?thesis
      by (blast intro: sends_trans sends_refl)
  next
    case (Inr response)
    obtain x w2 where
      tl: "tool_loop fuel client inst ?sys ?tls response ?msgs
             (aggregateTokenUsage [emptyTokenUsage, usage response]) [] w1 = (x, w2)"
      by (metis surj_pair)
    have s2: "sends ?P w1 w2"
      by (rule tool_loop_sends [OF tl])
    from assms cm Inr tl have "calls w' = calls w2"
      by (auto simp: run_body_def run_failed_def run_finished_def
               split: prod.splits outcome.splits option.splits sum.splits)
    with s1 s2 show ?thesis
      by (blast intro: sends_trans sends_refl)
  qed
qed

lemma PromptInstance_run_sends:
  assumes "PromptInstance_run fuel client inst w = (out, w')"
  shows "sends (\<lambda>p. mp_tools p = tool_definitions (pi_toolHandlers inst)) w w'"
proof (cases "case hook_beforeCall (pi_config inst) of
                Some h \<Rightarrow> h (pi_input inst) | None \<Rightarrow> Inr (pi_input inst)")
  case (Inl err)
  with assms show ?thesis
    by (auto simp: PromptInstance_run_def intro: sends_refl)
next
  case (Inr processedInput)
  let ?w0 = "pi_emit inst (PromptInstanceStart (pi_id inst) (p_name (pi_config inst)) processedInput) w"
  from assms Inr have "run_body fuel client inst processedInput ?w0 = (out, w')"
    by (simp add: PromptInstance_run_def)
  from run_body_sends [OF this] show ?thesis
    by (simp add: sends_def)
qed

lemma new_PromptInstance_fields:
  assumes "new_PromptInstance cfg m inp observed handlers w = (inst, w')"
  shows "pi_config inst = cfg" "pi_observed inst = observed" "pi_toolHandlers inst = handlers"
    "pi_input inst = inp" "resolvedModel inst = m"
    "calls w' = calls w" "emitted w' = emitted w" "client_state w' = client_state w"
    "status w' = status w"
  using assms by (auto simp: new_PromptInstance_def generateId_def split: option.splits)

lemma retry_loop_frame:
  assumes refl: "\<And>w. R w w"
    and trans: "\<And>a b c. R a b \<Longrightarrow> R b c \<Longrightarrow> R a c"
    and new: "\<And>m inp w inst w'.
        new_PromptInstance promptConfig m inp True (ag_toolHandlers ag) w = (inst, w') \<Longrightarrow> R w w'"
    and run: "\<And>inst w out w'.
        pi_observed inst \<Longrightarrow> pi_toolHandlers inst = ag_toolHandlers ag \<Longrightarrow>
        PromptInstance_run fuel client inst w = (out, w') \<Longrightarrow> (ended \<longrightarrow> out \<noteq> NoReturn) \<Longrightarrow>
        R w w'"
    and reflection: "\<And>res w out w'.
        reflection_enabled ag \<Longrightarrow>
        reflect fuel client ag promptConfig res None w = (out, w') \<Longrightarrow>
        (ended \<longrightarrow> out \<noteq> NoReturn) \<Longrightarrow> R w w'"
  shows "retry_loop fuel client ag promptConfig promptInput attempts result rc meta w =
           ((x, rc', meta'), w') \<Longrightarrow> (ended \<longrightarrow> x \<noteq> NoReturn) \<Longrightarrow> R w w'"
proof (induction "Suc (maxRetries_of ag) - attempts" arbitrary: attempts result rc meta w)
  case 0
  then have "\<not> attempts \<le> maxRetries_of ag" by simp
  with "0.prems" refl show ?case
    by (simp add: retry_loop.simps [of _ _ _ _ _ attempts])
next
  case (Suc n)
  note loop = Suc.prems(1) and ended = Suc.prems(2)
  show ?case
  proof (cases "attempts \<le> maxRetries_of ag")
    case False
    with loop refl show ?thesis
      by (simp add: retry_loop.simps [of _ _ _ _ _ attempts])
  next
    case True
    with Suc.hyps(2) have n: "n = Suc (maxRetries_of ag) - Suc attempts" by simp
    note IH = Suc.hyps(1) [OF n]
    show ?thesis
    proof (cases "resolveModel ag (p_model promptConfig)")
      case (Inl err)
      with loop True refl show ?thesis
        by (simp add: retry_loop.simps [of _ _ _ _ _ attempts])
    next
      case (Inr m)
      obtain inst w1 where
        ni: "new_PromptInstance promptConfig m promptInput True (ag_toolHandlers ag) w = (inst, w1)"
        by (metis surj_pair)
      obtain out w2 where pr: "PromptInstance_run fuel client inst w1 = (out, w2)"
        by (metis surj_pair)
      have r1: "R w w1" by (rule new [OF ni])
      have obs: "pi_observed inst" "pi_toolHandlers inst = ag_toolHandlers ag"
        using new_PromptInstance_fields [OF ni] by simp_all
      show ?thesis
      proof (cases out)
        case NoReturn
        with loop True Inr ni pr have "x = NoReturn" "w' = w2"
          by (simp_all add: retry_loop.simps [of _ _ _ _ _ attempts])
        with ended run [OF obs pr] NoReturn r1 show ?thesis
          by (auto intro: trans)
      next
        case (Threw err)
        with loop True Inr ni pr have "x = Threw err" "w' = w2"
          by (simp_all add: retry_loop.simps [of _ _ _ _ _ attempts])
        with ended run [OF obs pr] Threw r1 show ?thesis
          by (auto intro: trans)
      next
        case (Returned res)
        then have r2: "R w w2"
          using run [OF obs pr] r1 by (auto intro: trans)
        show ?thesis
        proof (cases "error res")
          case None
          with loop True Inr ni pr Returned have "w' = w2"
            by (simp add: retry_loop.simps [of _ _ _ _ _ attempts])
          with r2 show ?thesis by simp
        next
          case (Some e)
          show ?thesis
          proof (cases "call_onError ag e")
            case (Inl err)
            with loop True Inr ni pr Returned Some have "w' = w2"
              by (simp add: retry_loop.simps [of _ _ _ _ _ attempts])
            with r2 show ?thesis by simp
          next
            case onError: (Inr u)
            show ?thesis
            proof (cases "reflection_enabled ag \<and> Suc attempts \<le> maxRetries_of ag")
              case False
              show ?thesis
              proof (cases "Suc attempts \<le> maxRetries_of ag")
                case again: True
                with loop True Inr ni pr Returned Some onError False
                have "retry_loop fuel client ag promptConfig promptInput (Suc attempts) (Some res)
                        (Suc rc) meta w2 = ((x, rc', meta'), w')"
                  by (simp add: retry_loop.simps [of _ _ _ _ _ attempts])
                from IH [OF this ended] r2 show ?thesis
                  by (auto intro: trans)
              next
                case stop: False
                with loop True Inr ni pr Returned Some onError False have "w' = w2"
                  by (simp add: retry_loop.simps [of _ _ _ _ _ attempts])
                with r2 show ?thesis by simp
              qed
            next
              case reflecting: True
              obtain rout w3 where rf: "reflect fuel client ag promptConfig res None w2 = (rout, w3)"
                by (metis surj_pair)
              show ?thesis
              proof (cases rout)
                case NoReturn
                with loop True Inr ni pr Returned Some onError reflecting rf
                have "x = NoReturn" "w' = w3"
                  by (simp_all add: retry_loop.simps [of _ _ _ _ _ attempts])
                with ended reflection [OF conjunct1 [OF reflecting] rf] NoReturn r2 show ?thesis
                  by (auto intro: trans)
              next
                case (Threw err)
                with loop True Inr ni pr Returned Some onError reflecting rf
                have "x = Threw err" "w' = w3"
                  by (simp_all add: retry_loop.simps [of _ _ _ _ _ attempts])
                with ended reflection [OF conjunct1 [OF reflecting] rf] Threw r2 show ?thesis
                  by (auto intro: trans)
              next
                case reflected: (Returned rres)
                then have r3: "R w w3"
                  using reflection [OF conjunct1 [OF reflecting] rf] r2 by (auto intro: trans)
                show ?thesis
                proof (cases "error rres")
                  case None
                  with loop True Inr ni pr Returned Some onError reflecting rf reflected
                  have "w' = w3"
                    by (simp add: retry_loop.simps [of _ _ _ _ _ attempts])
                  with r3 show ?thesis by simp
                next
                  case failed_again: (Some e')
                  with loop True Inr ni pr Returned Some onError reflecting rf reflected
                  have "retry_loop fuel client ag promptConfig promptInput (Suc attempts)
                          (Some res) (Suc rc) meta w3 = ((x, rc', meta'), w')"
                    by (simp add: retry_loop.simps [of _ _ _ _ _ attempts])
                  from IH [OF this ended] r3 show ?thesis
                    by (auto intro: trans)
                qed
              qed
            qed
          qed
        qed
      qed
    qed
  qed
qed

lemma run_prompts_frame:
  assumes refl: "\<And>w. R w w"
    and trans: "\<And>a b c. R a b \<Longrightarrow> R b c \<Longrightarrow> R a c"
    and loop: "\<And>promptConfig promptInput rc meta w x rc' meta' w'.
        retry_loop fuel client ag promptConfig promptInput 0 None rc meta w =
          ((x, rc', meta'), w') \<Longrightarrow> (ended \<longrightarrow> x \<noteq> NoReturn) \<Longrightarrow> R w w'"
  shows "run_prompts fuel client ag processedInput ps prs rc meta w = ((x, prs', rc', meta'), w')
         \<Longrightarrow> (ended \<longrightarrow> x \<noteq> NoReturn) \<Longrightarrow> R w w'"
proof (induction ps arbitrary: prs rc meta w)
  case Nil
  with refl show ?case by simp
next
  case (Cons promptConfig rest)
  note run = Cons.prems(1) and ended = Cons.prems(2)
  show ?case
  proof (cases "call_beforePrompt ag promptConfig processedInput")
    case (Inl err)
    with run refl show ?thesis by simp
  next
    case (Inr promptInput)
    obtain y rc1 meta1 w1 where
      rl: "retry_loop fuel client ag promptConfig promptInput 0 None rc meta w =
             ((y, rc1, meta1), w1)"
      by (metis surj_pair)
    show ?thesis
    proof (cases y)
      case NoReturn
      with run Inr rl have "x = NoReturn" "w' = w1" by simp_all
      with ended loop [OF rl] NoReturn show ?thesis by simp
    next
      case (Threw err)
      with run Inr rl have "x = Threw err" "w' = w1" by simp_all
      with ended loop [OF rl] Threw show ?thesis by simp
    next
      case (Returned result)
      then have r1: "R w w1"
        using loop [OF rl] by simp
      show ?thesis
      proof (cases "call_afterPrompt ag promptConfig result")
        case (Inl err)
        with run Inr rl Returned have "w' = w1" by simp
        with r1 show ?thesis by simp
      next
        case after: (Inr result')
        show ?thesis
        proof (cases "has_error result' \<and> rc1 > maxRetries_of ag")
          case True
          with run Inr rl Returned after have "w' = w1" by simp
          with r1 show ?thesis by simp
        next
          case False
          with run Inr rl Returned after
          have "run_prompts fuel client ag processedInput rest (push_result prs result') rc1
                  meta1 w1 = ((x, prs', rc', meta'), w')"
            by simp
          from Cons.IH [OF this ended] r1 show ?thesis
            by (auto intro: trans)
        qed
      qed
    qed
  qed
qed

lemma reflect_sends:
  assumes "reflect fuel client ag promptConfig failedResult overrideModel w = (out, w')"
  shows "sends (\<lambda>p. mp_tools p = None) w w'"
proof (cases "resolveModel ag overrideModel")
  case (Inl err)
  with assms show ?thesis
    by (auto simp: reflect_def intro: sends_refl)
next
  case (Inr m)
  let ?w0 = "emit (ReflectionStart (ag_id ag) (error failedResult)) w"
  obtain inst w1 where
    ni: "new_PromptInstance DEFAULT_REFLECTION_PROMPT m
           (JObj [(''originalPrompt'', JStr (user promptConfig)),
                  (''originalResult'', JStr (content failedResult)),
                  (''error'', JStr (error_text (error failedResult)))]) True [] ?w0 = (inst, w1)"
    by (metis surj_pair)
  obtain pout w2 where pr: "PromptInstance_run fuel client inst w1 = (pout, w2)"
    by (metis surj_pair)
  have "sends (\<lambda>p. mp_tools p = None) w1 w2"
    using PromptInstance_run_sends [OF pr] new_PromptInstance_fields(3) [OF ni]
    by (simp add: tool_definitions_def)
  moreover have "calls w1 = calls w"
    using new_PromptInstance_fields(6) [OF ni] by simp
  moreover from assms Inr ni pr have "calls w' = calls w2"
    by (cases pout) (auto simp: reflect_def split: option.splits sum.splits)
  ultimately show ?thesis
    by (simp add: sends_def)
qed

lemma Agent_run_sends:
  assumes "Agent_run fuel client ag inp w = (out, w')"
  shows "sends (agent_tools ag) w w'"
proof (cases "case hook_beforeRun ag of Some h \<Rightarrow> h inp | None \<Rightarrow> Inr inp")
  case (Inl err)
  with assms show ?thesis
    by (auto simp: Agent_run_def intro: sends_refl)
next
  case (Inr processedInput)
  let ?w0 = "emit (AgentRunStart (ag_id ag) (a_name (ag_config ag)) processedInput) w"
  obtain y prs rc meta w1 where
    rp: "run_prompts fuel client ag processedInput (prompts (ag_config ag)) [] 0 None ?w0 =
           ((y, prs, rc, meta), w1)"
    by (metis surj_pair)
  have loop: "sends (agent_tools ag) wa wb"
    if "retry_loop fuel client ag promptConfig promptInput 0 None rc0 meta0 wa =
          ((z, rc1, meta1), wb)"
    for promptConfig promptInput rc0 meta0 wa z rc1 meta1 wb
  proof (rule retry_loop_frame [where ended = False and R = "sends (agent_tools ag)", OF _ _ _ _ _ that])
    show "sends (agent_tools ag) w w" for w :: "'a world"
      by (simp add: sends_refl)
    show "sends (agent_tools ag) a b \<Longrightarrow> sends (agent_tools ag) b c \<Longrightarrow> sends (agent_tools ag) a c"
      for a b c :: "'a world"
      by (rule sends_trans)
    show "sends (agent_tools ag) w w'"
      if "new_PromptInstance promptConfig m inp True (ag_toolHandlers ag) w = (inst, w')"
      for m inp inst and w w' :: "'a world"
      using new_PromptInstance_fields(6) [OF that] by (simp add: sends_refl)
    show "sends (agent_tools ag) w w'"
      if "pi_toolHandlers inst = ag_toolHandlers ag"
        and "PromptInstance_run fuel client inst w = (out, w')"
      for inst out and w w' :: "'a world"
      using PromptInstance_run_sends [OF that(2)] that(1)
      by (auto elim!: sends_mono simp: agent_tools_def tool_definitions_def)
    show "sends (agent_tools ag) w w'"
      if "reflect fuel client ag promptConfig res None w = (out, w')"
      for res out and w w' :: "'a world"
      using reflect_sends [OF that]
      by (auto elim!: sends_mono simp: agent_tools_def)
  qed simp
  have s1: "sends (agent_tools ag) ?w0 w1"
    by (rule run_prompts_frame [where ended = False and R = "sends (agent_tools ag)", OF _ _ _ rp])
       (auto intro: sends_refl sends_trans loop)
  from assms Inr rp have "calls w' = calls w1"
    by (cases y)
       (auto simp: Agent_run_def agent_failed_def agent_finished_def
             split: option.splits sum.splits)
  with s1 show ?thesis
    by (simp add: sends_def)
qed

text \<open>
  C9. The \<^verbatim>\<open>tools\<close> field of an agent's configuration is never read: replacing it
  leaves the run as it is, with its result, its events and its requests. Every request of
  an agent run carries either no tool definitions or the definitions made from the keys of
  the agent's handler registry.
\<close>

theorem tools_field_has_no_effect:
  "Agent_run fuel client (ag\<lparr>ag_config := (ag_config ag)\<lparr>tools := t\<rparr>\<rparr>) inp w =
     Agent_run fuel client ag inp w
   \<and> (Agent_run fuel client ag inp w = (out, w') \<longrightarrow>
        (\<exists>cs. calls w' = calls w @ cs \<and> (\<forall>c\<in>set cs. agent_tools ag (fst c))))"
proof -
  have same: "Agent_run fuel client (ag\<lparr>ag_config := (ag_config ag)\<lparr>tools := t\<rparr>\<rparr>) inp w =
      Agent_run fuel client ag inp w"
    using Agent_run_with_tools [of fuel client t ag inp w] by (simp add: with_tools_def)
  have "Agent_run fuel client ag inp w = (out, w') \<longrightarrow> sends (agent_tools ag) w w'"
    using Agent_run_sends [of fuel client ag inp w out w'] by blast
  with same show ?thesis
    by (simp add: sends_def)
qed

theorem tools_field_has_no_effect_witness:
  "Agent_run 3 (scripted [Inr text_response])
     (working_agent\<lparr>ag_config := (ag_config working_agent)\<lparr>tools := Some [example_tool]\<rparr>\<rparr>)
     (JObj []) initial_world =
   Agent_run 3 (scripted [Inr text_response]) working_agent (JObj []) initial_world
   \<and> map (\<lambda>c. mp_tools (fst c))
         (calls (snd (Agent_run 3 (scripted [Inr text_response]) working_agent (JObj [])
                        initial_world))) =
       [Some [\<lparr>t_name = ''echo'', t_description = ''Tool: echo'',
               t_input_schema = JObj [(''type'', JStr ''object''), (''properties'', JObj [])]\<rparr>]]
   \<and> (\<exists>cs. calls (snd (Agent_run 3 (scripted [Inr text_response]) working_agent (JObj [])
                          initial_world)) = calls initial_world @ cs
          \<and> list_all (\<lambda>c. agent_tools working_agent (fst c)) cs)"
proof -
  obtain out w' where
    run: "Agent_run 3 (scripted [Inr text_response]) working_agent (JObj []) initial_world =
            (out, w')"
    by (metis surj_pair)
  have sent: "map (\<lambda>c. mp_tools (fst c))
         (calls (snd (Agent_run 3 (scripted [Inr text_response]) working_agent (JObj [])
                        initial_world))) =
       [Some [\<lparr>t_name = ''echo'', t_description = ''Tool: echo'',
               t_input_schema = JObj [(''type'', JStr ''object''), (''properties'', JObj [])]\<rparr>]]"
    by (simp add: run_defs example_defs)
  from tools_field_has_no_effect
    [where fuel = 3 and client = "scripted [Inr text_response]" and ag = working_agent
       and t = "Some [example_tool]" and inp = "JObj []" and w = initial_world
       and out = out and w' = w'] run sent
  show ?thesis
    by (simp add: list_all_iff)
qed

section \<open>Fail-fast\<close>

lemma step_error_None_iff:
  "step_error results = None \<longleftrightarrow> (\<forall>r\<in>set results. a_error r = None)"
  by (auto simp: step_error_def find_None_iff split: option.splits dest: find_Some_iff [THEN iffD1])


lemma stepName_of_agents [simp]: "stepName_of (step\<lparr>agents := ags\<rparr>) = stepName_of step"
  by (simp add: stepName_of_def split: option.splits)


lemma setStatus_fields [simp]:
  "emitted (setStatus s w) = emitted w" "calls (setStatus s w) = calls w"
  "status (setStatus s w) = s" "client_state (setStatus s w) = client_state w"
  "fresh (setStatus s w) = fresh w"
  by (simp_all add: setStatus_def)





section \<open>The events of a prompt execution\<close>

lemma scan_append:
  "scan st (xs @ ys) = (case scan st xs of None \<Rightarrow> None | Some st' \<Rightarrow> scan st' ys)"
  by (induction xs arbitrary: st) (auto split: option.splits)

lemma tool_events_Nil [simp]: "tool_events promptId []"
  by (simp add: tool_events_def)

lemma tool_events_append:
  "tool_events promptId xs \<Longrightarrow> tool_events promptId ys \<Longrightarrow> tool_events promptId (xs @ ys)"
  by (simp add: tool_events_def scan_append)

lemma tool_events_pair:
  "tool_events promptId [ToolCallStart toolId name inp promptId, ToolCallEnd toolId name out err promptId]"
  by (simp add: tool_events_def)

lemma process_blocks_events:
  "process_blocks inst bs tcs trs w = (x, w') \<Longrightarrow> pi_observed inst \<Longrightarrow>
   \<exists>evs. emitted w' = emitted w @ evs \<and> tool_events (pi_id inst) evs"
proof (induction inst bs tcs trs w rule: process_blocks.induct)
  case (4 inst bid name inp bs tcs trs w)
  obtain toolId w1 where g: "generateId w = (toolId, w1)" by (cases "generateId w")
  obtain out err where c: "call_tool inst toolId name inp = (out, err)"
    by (cases "call_tool inst toolId name inp")
  let ?pair = "[ToolCallStart toolId name inp (pi_id inst), ToolCallEnd toolId name out err (pi_id inst)]"
  let ?w3 = "pi_emit inst (ToolCallEnd toolId name out err (pi_id inst))
               (pi_emit inst (ToolCallStart toolId name inp (pi_id inst)) w1)"
  have e3: "emitted ?w3 = emitted w @ ?pair"
    using g "4.prems"(2) by (auto simp: pi_emit_def generateId_def)
  from "4.prems" g c obtain evs where
    evs: "emitted w' = emitted ?w3 @ evs" "tool_events (pi_id inst) evs"
    using "4.IH" [OF g [symmetric] c [symmetric]] by auto
  from evs e3 tool_events_append [OF tool_events_pair evs(2)] show ?case
    by (intro exI [of _ "?pair @ evs"]) simp
qed auto

lemma tool_loop_events:
  "tool_loop fuel client inst sys tls response msgs tu tcs w = (x, w') \<Longrightarrow> pi_observed inst \<Longrightarrow>
   \<exists>evs. emitted w' = emitted w @ evs \<and> tool_events (pi_id inst) evs"
proof (induction fuel arbitrary: response msgs tu tcs w)
  case 0
  then show ?case
    by (auto simp: tool_loop.simps split: if_splits)
next
  case (Suc fuel)
  show ?case
  proof (cases "stopReason response = Some ''tool_use''")
    case False
    with Suc.prems show ?thesis
      by (auto simp: tool_loop.simps)
  next
    case True
    obtain tcs1 trs w1 where pb: "process_blocks inst (m_content response) tcs [] w = ((tcs1, trs), w1)"
      by (metis surj_pair)
    let ?msgs = "msgs @ [AssistantMessage (m_content response), ToolResultMessage trs]"
    obtain r w2 where cm: "createMessage client (request inst sys ?msgs tls) w1 = (r, w2)"
      by (cases "createMessage client (request inst sys ?msgs tls) w1")
    from process_blocks_events [OF pb Suc.prems(2)] obtain evs1 where
      evs1: "emitted w1 = emitted w @ evs1" "tool_events (pi_id inst) evs1" by blast
    have e2: "emitted w2 = emitted w1"
      using createMessage_fields(1) [of client "request inst sys ?msgs tls" w1] cm by simp
    show ?thesis
    proof (cases r)
      case (Inl err)
      with Suc.prems True pb cm have "w' = w2"
        by (simp add: tool_loop.simps)
      with evs1 e2 show ?thesis by auto
    next
      case (Inr response')
      with Suc.prems True pb cm
      have "tool_loop fuel client inst sys tls response' ?msgs
              (aggregateTokenUsage [tu, usage response']) tcs1 w2 = (x, w')"
        by (simp add: tool_loop.simps)
      from Suc.IH [OF this Suc.prems(2)] obtain evs2 where
        evs2: "emitted w' = emitted w2 @ evs2" "tool_events (pi_id inst) evs2" by blast
      with evs1 e2 show ?thesis
        by (intro exI [of _ "evs1 @ evs2"]) (simp add: tool_events_append)
    qed
  qed
qed

lemma run_body_events:
  assumes "run_body fuel client inst processedInput w = (out, w')" and "pi_observed inst"
  shows "\<exists>tevs. tool_events (pi_id inst) tevs \<and>
           (case out of
              Threw err \<Rightarrow> False
            | NoReturn \<Rightarrow> emitted w' = emitted w @ tevs
            | Returned r \<Rightarrow>
                emitted w' = emitted w @ tevs
                   @ [PromptInstanceEnd (pi_id inst) (p_name (pi_config inst)) r (tokenUsage r)])"
proof -
  let ?sys = "systemContent_of (pi_config inst) (interpolation_context processedInput)"
  let ?msgs = "[UserMessage (interpolate (user (pi_config inst)) (interpolation_context processedInput))]"
  let ?tls = "tool_definitions (pi_toolHandlers inst)"
  obtain r1 w1 where cm: "createMessage client (request inst ?sys ?msgs ?tls) w = (r1, w1)"
    by (metis surj_pair)
  have e1: "emitted w1 = emitted w"
    using createMessage_fields(1) [of client "request inst ?sys ?msgs ?tls" w] cm by simp
  show ?thesis
  proof (cases r1)
    case (Inl err)
    with assms cm e1 show ?thesis
      by (intro exI [of _ "[]"]) (auto simp: run_body_def run_failed_def pi_emit_def emit_def)
  next
    case (Inr response)
    obtain x tu tcs w2 where
      tl: "tool_loop fuel client inst ?sys ?tls response ?msgs
             (aggregateTokenUsage [emptyTokenUsage, usage response]) [] w1 = ((x, tu, tcs), w2)"
      by (metis surj_pair)
    from tool_loop_events [OF tl assms(2)] obtain tevs where
      tevs: "emitted w2 = emitted w1 @ tevs" "tool_events (pi_id inst) tevs" by blast
    from assms cm Inr tl tevs e1 show ?thesis
      by (intro exI [of _ tevs])
         (cases x; auto simp: run_body_def run_failed_def run_finished_def pi_emit_def emit_def
                  split: option.splits sum.splits)
  qed
qed

lemma PromptInstance_run_events:
  assumes "PromptInstance_run fuel client inst w = (out, w')" and "pi_observed inst"
  shows "\<exists>evs. emitted w' = emitted w @ evs \<and> prompt_events inst out evs"
proof (cases "case hook_beforeCall (pi_config inst) of Some h \<Rightarrow> h (pi_input inst)
              | None \<Rightarrow> Inr (pi_input inst)")
  case (Inl err)
  with assms show ?thesis
    by (auto simp: PromptInstance_run_def prompt_events_def)
next
  case (Inr processedInput)
  let ?start = "PromptInstanceStart (pi_id inst) (p_name (pi_config inst)) processedInput"
  from assms Inr have "run_body fuel client inst processedInput (pi_emit inst ?start w) = (out, w')"
    by (simp add: PromptInstance_run_def)
  from run_body_events [OF this assms(2)] assms(2) show ?thesis
    by (cases out) (auto simp: prompt_events_def pi_emit_def emit_def)
qed

section \<open>Retries and reflection\<close>

lemma outside_reflection_plain:
  "list_all (\<lambda>e. \<not> is_reflection_mark e) pevs \<Longrightarrow>
   outside_reflection b (pevs @ rest) = (if b then [] else pevs) @ outside_reflection b rest"
proof (induction pevs)
  case Nil
  show ?case by simp
next
  case (Cons e pevs)
  then show ?case by (cases e) auto
qed

lemma nested_reflection_plain:
  "list_all (\<lambda>e. \<not> is_reflection_mark e) pevs \<Longrightarrow>
   nested_reflection b (pevs @ rest) = nested_reflection b rest"
proof (induction pevs)
  case Nil
  show ?case by simp
next
  case (Cons e pevs)
  then show ?case by (cases e) auto
qed

lemma no_reflection_start_plain:
  "list_all (\<lambda>e. \<not> is_reflection_mark e) pevs \<Longrightarrow> filter is_reflection_start pevs = []"
proof (induction pevs)
  case Nil
  show ?case by simp
next
  case (Cons e pevs)
  then show ?case by (cases e) auto
qed

lemma tool_events_plain:
  assumes "list_all is_tool_event tevs"
  shows "list_all (\<lambda>e. \<not> is_reflection_mark e) tevs" "filter is_prompt_start tevs = []"
    "filter is_failed_end tevs = []"
  using assms
proof (induction tevs)
  case Nil
  { case 1 show ?case by simp }
  { case 2 show ?case by simp }
  { case 3 show ?case by simp }
next
  case (Cons e tevs)
  { case 1 with Cons show ?case by (cases e) auto }
  { case 2 with Cons show ?case by (cases e) auto }
  { case 3 with Cons show ?case by (cases e) auto }
qed

lemma prompt_events_plain:
  assumes "prompt_events inst out evs"
  shows "list_all (\<lambda>e. \<not> is_reflection_mark e) evs"
    and "length (filter is_prompt_start evs) \<le> 1"
    and "length (filter is_failed_end evs) =
           (case out of Returned r \<Rightarrow> (if error r = None then 0 else 1) | _ \<Rightarrow> 0)"
  using assms
  by (cases out; auto simp: prompt_events_def tool_events_def tool_events_plain)+

lemma attempt_then:
  assumes "list_all (\<lambda>e. \<not> is_reflection_mark e) pevs"
  shows "prompt_attempts (pevs @ rest) = length (filter is_prompt_start pevs) + prompt_attempts rest"
    and "failed_attempts (pevs @ rest) = length (filter is_failed_end pevs) + failed_attempts rest"
    and "reflection_attempts (pevs @ rest) = reflection_attempts rest"
    and "nested_reflection False (pevs @ rest) = nested_reflection False rest"
  using assms
  by (simp_all add: prompt_attempts_def failed_attempts_def reflection_attempts_def
        outside_reflection_plain nested_reflection_plain no_reflection_start_plain)

lemma reflection_then:
  assumes "list_all (\<lambda>e. \<not> is_reflection_mark e) pevs"
  shows "prompt_attempts (ReflectionStart a e # pevs @ ReflectionEnd a' r # rest) = prompt_attempts rest"
    and "failed_attempts (ReflectionStart a e # pevs @ ReflectionEnd a' r # rest) = failed_attempts rest"
    and "reflection_attempts (ReflectionStart a e # pevs @ ReflectionEnd a' r # rest) =
           Suc (reflection_attempts rest)"
    and "nested_reflection False (ReflectionStart a e # pevs @ ReflectionEnd a' r # rest) =
           nested_reflection False rest"
  using assms
  by (simp_all add: prompt_attempts_def failed_attempts_def reflection_attempts_def
        outside_reflection_plain nested_reflection_plain no_reflection_start_plain)

lemma reflection_open:
  assumes "list_all (\<lambda>e. \<not> is_reflection_mark e) pevs"
  shows "prompt_attempts (ReflectionStart a e # pevs) = 0"
    and "failed_attempts (ReflectionStart a e # pevs) = 0"
    and "reflection_attempts (ReflectionStart a e # pevs) = 1"
    and "nested_reflection False (ReflectionStart a e # pevs) = False"
  using assms outside_reflection_plain [of pevs True "[]"] nested_reflection_plain [of pevs True "[]"]
  by (simp_all add: prompt_attempts_def failed_attempts_def reflection_attempts_def
        no_reflection_start_plain)

lemma reflect_events:
  assumes "reflect fuel client ag promptConfig failedResult overrideModel w = (out, w')"
  shows "\<exists>err pevs. list_all (\<lambda>e. \<not> is_reflection_mark e) pevs \<and>
           (case out of
              Returned r \<Rightarrow>
                emitted w' = emitted w @ ReflectionStart (ag_id ag) err # pevs
                               @ [ReflectionEnd (ag_id ag) r]
            | _ \<Rightarrow>
                emitted w' = emitted w @ ReflectionStart (ag_id ag) err # pevs \<or>
                (\<exists>r. emitted w' = emitted w @ ReflectionStart (ag_id ag) err # pevs
                                     @ [ReflectionEnd (ag_id ag) r]))"
proof (cases "resolveModel ag overrideModel")
  case (Inl err)
  with assms show ?thesis
    by (intro exI [of _ "error failedResult"] exI [of _ "[]"])
       (auto simp: reflect_def emit_def)
next
  case (Inr m)
  let ?w0 = "emit (ReflectionStart (ag_id ag) (error failedResult)) w"
  obtain inst w1 where
    ni: "new_PromptInstance DEFAULT_REFLECTION_PROMPT m
           (JObj [(''originalPrompt'', JStr (user promptConfig)),
                  (''originalResult'', JStr (content failedResult)),
                  (''error'', JStr (error_text (error failedResult)))]) True [] ?w0 = (inst, w1)"
    by (metis surj_pair)
  obtain pout w2 where pr: "PromptInstance_run fuel client inst w1 = (pout, w2)"
    by (metis surj_pair)
  have e1: "emitted w1 = emitted w @ [ReflectionStart (ag_id ag) (error failedResult)]"
    using new_PromptInstance_fields(7) [OF ni] by (simp add: emit_def)
  from PromptInstance_run_events [OF pr] new_PromptInstance_fields(2) [OF ni]
  obtain pevs where pevs: "emitted w2 = emitted w1 @ pevs" "prompt_events inst pout pevs"
    by auto
  note plain = prompt_events_plain(1) [OF pevs(2)]
  from assms Inr ni pr pevs(1) e1 plain show ?thesis
    by (intro exI [of _ "error failedResult"] exI [of _ pevs])
       (cases pout; auto simp: reflect_def emit_def split: option.splits sum.splits)
qed

lemma nested_reflection_inside:
  assumes "list_all (\<lambda>e. \<not> is_reflection_mark e) pevs"
  shows "nested_reflection True pevs = False"
    and "nested_reflection True (pevs @ ReflectionEnd a r # rest) = nested_reflection False rest"
  using assms nested_reflection_plain [of pevs True "[]"]
  by (simp_all add: nested_reflection_plain)

lemma attempts_Nil:
  "prompt_attempts [] = 0" "failed_attempts [] = 0" "reflection_attempts [] = 0"
  by (simp_all add: prompt_attempts_def failed_attempts_def reflection_attempts_def)

lemma attempt_only:
  assumes "list_all (\<lambda>e. \<not> is_reflection_mark e) pevs"
  shows "prompt_attempts pevs = length (filter is_prompt_start pevs)"
    and "failed_attempts pevs = length (filter is_failed_end pevs)"
    and "reflection_attempts pevs = 0"
    and "nested_reflection False pevs = False"
  using attempt_then [OF assms, of "[]"] by (simp_all add: attempts_Nil)

lemma retry_loop_counts:
  "retry_loop fuel client ag promptConfig promptInput attempts result rc meta w =
     ((x, rc', meta'), w') \<Longrightarrow>
   \<exists>evs. emitted w' = emitted w @ evs \<and>
         prompt_attempts evs \<le> Suc (maxRetries_of ag) - attempts \<and>
         rc' = rc + failed_attempts evs \<and>
         reflection_attempts evs \<le> failed_attempts evs \<and>
         reflection_attempts evs \<le> maxRetries_of ag - attempts \<and>
         \<not> nested_reflection False evs"
proof (induction "Suc (maxRetries_of ag) - attempts" arbitrary: attempts result rc meta w)
  case 0
  then have "\<not> attempts \<le> maxRetries_of ag" by simp
  with "0.prems" show ?case
    by (intro exI [of _ "[]"]) (simp add: retry_loop.simps [of _ _ _ _ _ attempts] attempts_Nil)
next
  case (Suc n)
  note loop = Suc.prems(1)
  show ?case
  proof (cases "attempts \<le> maxRetries_of ag")
    case False
    with loop show ?thesis
      by (intro exI [of _ "[]"]) (simp add: retry_loop.simps [of _ _ _ _ _ attempts] attempts_Nil)
  next
    case True
    with Suc.hyps(2) have n: "n = Suc (maxRetries_of ag) - Suc attempts" by simp
    note IH = Suc.hyps(1) [OF n]
    show ?thesis
    proof (cases "resolveModel ag (p_model promptConfig)")
      case (Inl err)
      with loop True show ?thesis
        by (intro exI [of _ "[]"]) (simp add: retry_loop.simps [of _ _ _ _ _ attempts] attempts_Nil)
    next
      case (Inr m)
      obtain inst w1 where
        ni: "new_PromptInstance promptConfig m promptInput True (ag_toolHandlers ag) w = (inst, w1)"
        by (metis surj_pair)
      obtain out w2 where pr: "PromptInstance_run fuel client inst w1 = (out, w2)"
        by (metis surj_pair)
      from PromptInstance_run_events [OF pr] new_PromptInstance_fields(2,7) [OF ni]
      obtain pevs where e2: "emitted w2 = emitted w @ pevs" and pe: "prompt_events inst out pevs"
        by auto
      note plain = prompt_events_plain(1) [OF pe]
      note starts = prompt_events_plain(2) [OF pe]
      note fails = prompt_events_plain(3) [OF pe]
      show ?thesis
      proof (cases out)
        case NoReturn
        with loop True Inr ni pr have "rc' = rc" "w' = w2"
          by (simp_all add: retry_loop.simps [of _ _ _ _ _ attempts])
        with e2 starts fails NoReturn True show ?thesis
          by (intro exI [of _ pevs]) (simp add: attempt_only [OF plain])
      next
        case (Threw err)
        with loop True Inr ni pr have "rc' = rc" "w' = w2"
          by (simp_all add: retry_loop.simps [of _ _ _ _ _ attempts])
        with e2 starts fails Threw True show ?thesis
          by (intro exI [of _ pevs]) (simp add: attempt_only [OF plain])
      next
        case (Returned res)
        show ?thesis
        proof (cases "error res")
          case None
          with loop True Inr ni pr Returned have "rc' = rc" "w' = w2"
            by (simp_all add: retry_loop.simps [of _ _ _ _ _ attempts])
          with e2 starts fails Returned None True show ?thesis
            by (intro exI [of _ pevs]) (simp add: attempt_only [OF plain])
        next
          case (Some e)
          with fails Returned have one: "length (filter is_failed_end pevs) = 1" by simp
          show ?thesis
          proof (cases "call_onError ag e")
            case (Inl err)
            with loop True Inr ni pr Returned Some have "rc' = Suc rc" "w' = w2"
              by (simp_all add: retry_loop.simps [of _ _ _ _ _ attempts])
            with e2 starts one True show ?thesis
              by (intro exI [of _ pevs]) (simp add: attempt_only [OF plain])
          next
            case onError: (Inr u)
            show ?thesis
            proof (cases "reflection_enabled ag \<and> Suc attempts \<le> maxRetries_of ag")
              case False
              show ?thesis
              proof (cases "Suc attempts \<le> maxRetries_of ag")
                case again: True
                with loop True Inr ni pr Returned Some onError False
                have "retry_loop fuel client ag promptConfig promptInput (Suc attempts) (Some res)
                        (Suc rc) meta w2 = ((x, rc', meta'), w')"
                  by (simp add: retry_loop.simps [of _ _ _ _ _ attempts])
                from IH [OF this] obtain evs where
                  evs: "emitted w' = emitted w2 @ evs"
                    "prompt_attempts evs \<le> Suc (maxRetries_of ag) - Suc attempts"
                    "rc' = Suc rc + failed_attempts evs"
                    "reflection_attempts evs \<le> failed_attempts evs"
                    "reflection_attempts evs \<le> maxRetries_of ag - Suc attempts"
                    "\<not> nested_reflection False evs"
                  by blast
                with e2 starts one again show ?thesis
                  by (intro exI [of _ "pevs @ evs"]) (simp add: attempt_then [OF plain]; arith)
              next
                case stop: False
                with loop True Inr ni pr Returned Some onError False
                have "rc' = Suc rc" "w' = w2"
                  by (simp_all add: retry_loop.simps [of _ _ _ _ _ attempts])
                with e2 starts one True show ?thesis
                  by (intro exI [of _ pevs]) (simp add: attempt_only [OF plain])
              qed
            next
              case reflecting: True
              obtain rout w3 where rf: "reflect fuel client ag promptConfig res None w2 = (rout, w3)"
                by (metis surj_pair)
              from reflect_events [OF rf] obtain err rpevs where
                rplain: "list_all (\<lambda>e. \<not> is_reflection_mark e) rpevs" and
                shape: "case rout of
                    Returned r \<Rightarrow>
                      emitted w3 = emitted w2 @ ReflectionStart (ag_id ag) err # rpevs
                                     @ [ReflectionEnd (ag_id ag) r]
                  | _ \<Rightarrow>
                      emitted w3 = emitted w2 @ ReflectionStart (ag_id ag) err # rpevs \<or>
                      (\<exists>r. emitted w3 = emitted w2 @ ReflectionStart (ag_id ag) err # rpevs
                                           @ [ReflectionEnd (ag_id ag) r])"
                by blast
              have cut: ?thesis
                if "rc' = Suc rc" "w' = w3"
                  and "emitted w3 = emitted w2 @ ReflectionStart (ag_id ag) err # rpevs \<or>
                       (\<exists>r. emitted w3 = emitted w2 @ ReflectionStart (ag_id ag) err # rpevs
                                            @ [ReflectionEnd (ag_id ag) r])"
              proof -
                from that(3) show ?thesis
                proof
                  assume "emitted w3 = emitted w2 @ ReflectionStart (ag_id ag) err # rpevs"
                  with that(1,2) e2 starts one reflecting show ?thesis
                    by (intro exI [of _ "pevs @ ReflectionStart (ag_id ag) err # rpevs"])
                       (simp add: attempt_then [OF plain] reflection_open [OF rplain] nested_reflection_inside [OF rplain]; arith)
                next
                  assume "\<exists>r. emitted w3 = emitted w2 @ ReflectionStart (ag_id ag) err # rpevs
                                            @ [ReflectionEnd (ag_id ag) r]"
                  then obtain r where
                    "emitted w3 = emitted w2 @ ReflectionStart (ag_id ag) err # rpevs
                                    @ [ReflectionEnd (ag_id ag) r]" ..
                  with that(1,2) e2 starts one reflecting show ?thesis
                    by (intro exI [of _ "pevs @ ReflectionStart (ag_id ag) err # rpevs
                                           @ [ReflectionEnd (ag_id ag) r]"])
                       (simp add: attempt_then [OF plain] reflection_then [OF rplain] attempts_Nil nested_reflection_inside [OF rplain]; arith)
                qed
              qed
              show ?thesis
              proof (cases rout)
                case NoReturn
                with loop True Inr ni pr Returned Some onError reflecting rf
                have "rc' = Suc rc" "w' = w3"
                  by (simp_all add: retry_loop.simps [of _ _ _ _ _ attempts])
                with shape NoReturn show ?thesis by (intro cut) simp_all
              next
                case (Threw err')
                with loop True Inr ni pr Returned Some onError reflecting rf
                have "rc' = Suc rc" "w' = w3"
                  by (simp_all add: retry_loop.simps [of _ _ _ _ _ attempts])
                with shape Threw show ?thesis by (intro cut) simp_all
              next
                case reflected: (Returned rres)
                with shape have e3: "emitted w3 = emitted w2 @ ReflectionStart (ag_id ag) err # rpevs
                                       @ [ReflectionEnd (ag_id ag) rres]"
                  by simp
                show ?thesis
                proof (cases "error rres")
                  case None
                  with loop True Inr ni pr Returned Some onError reflecting rf reflected
                  have "rc' = Suc rc" "w' = w3"
                    by (simp_all add: retry_loop.simps [of _ _ _ _ _ attempts])
                  with e3 show ?thesis by (intro cut) auto
                next
                  case failed_again: (Some e')
                  with loop True Inr ni pr Returned Some onError reflecting rf reflected
                  have "retry_loop fuel client ag promptConfig promptInput (Suc attempts)
                          (Some res) (Suc rc) meta w3 = ((x, rc', meta'), w')"
                    by (simp add: retry_loop.simps [of _ _ _ _ _ attempts])
                  from IH [OF this] obtain evs where
                    evs: "emitted w' = emitted w3 @ evs"
                      "prompt_attempts evs \<le> Suc (maxRetries_of ag) - Suc attempts"
                      "rc' = Suc rc + failed_attempts evs"
                      "reflection_attempts evs \<le> failed_attempts evs"
                      "reflection_attempts evs \<le> maxRetries_of ag - Suc attempts"
                      "\<not> nested_reflection False evs"
                    by blast
                  with e2 e3 starts one reflecting show ?thesis
                    by (intro exI [of _ "pevs @ ReflectionStart (ag_id ag) err # rpevs
                                           @ ReflectionEnd (ag_id ag) rres # evs"])
                       (simp add: attempt_then [OF plain] reflection_then [OF rplain] nested_reflection_inside [OF rplain]; arith)
                qed
              qed
            qed
          qed
        qed
      qed
    qed
  qed
qed

lemma rejected_run_fails:
  assumes "\<And>c p. \<exists>e c'. on_createMessage client c p = (Inl e, c')"
    and "p_hooks cfg = None"
  shows "always_fails fuel client cfg"
  unfolding always_fails_def
proof (intro allI impI)
  fix inst :: PromptInstance and w :: "'a world"
  assume cfg: "pi_config inst = cfg"
  let ?w0 = "pi_emit inst (PromptInstanceStart (pi_id inst) (p_name (pi_config inst)) (pi_input inst)) w"
  let ?req = "request inst
                (systemContent_of (pi_config inst) (interpolation_context (pi_input inst)))
                [UserMessage (interpolate (user (pi_config inst))
                                (interpolation_context (pi_input inst)))]
                (tool_definitions (pi_toolHandlers inst))"
  from assms(1) obtain e c' where "on_createMessage client (client_state ?w0) ?req = (Inl e, c')"
    by blast
  then have "fst (createMessage client ?req ?w0) = Inl e"
    by (simp add: createMessage_def)
  then obtain w1 where "createMessage client ?req ?w0 = (Inl e, w1)"
    by (metis prod.collapse)
  with cfg assms(2)
  show "\<exists>r w'. PromptInstance_run fuel client inst w = (Returned r, w') \<and> error r \<noteq> None"
    by (simp add: PromptInstance_run_def hook_beforeCall_def run_body_def run_failed_def)
qed

lemma reflect_all_fail:
  assumes "always_fails fuel client DEFAULT_REFLECTION_PROMPT"
    and "a_hooks (ag_config ag) = None"
    and "reflect fuel client ag promptConfig failedResult overrideModel w = (out, w')"
  shows "(\<exists>e. out = Threw e) \<or> (\<exists>r. out = Returned r \<and> error r \<noteq> None)"
proof (cases "resolveModel ag overrideModel")
  case (Inl err)
  with assms(3) show ?thesis
    by (auto simp: reflect_def)
next
  case (Inr m)
  let ?w0 = "emit (ReflectionStart (ag_id ag) (error failedResult)) w"
  obtain inst w1 where
    ni: "new_PromptInstance DEFAULT_REFLECTION_PROMPT m
           (JObj [(''originalPrompt'', JStr (user promptConfig)),
                  (''originalResult'', JStr (content failedResult)),
                  (''error'', JStr (error_text (error failedResult)))]) True [] ?w0 = (inst, w1)"
    by (metis surj_pair)
  from assms(1) new_PromptInstance_fields(1) [OF ni] obtain r w2 where
    "PromptInstance_run fuel client inst w1 = (Returned r, w2)" "error r \<noteq> None"
    unfolding always_fails_def by blast
  with assms(2,3) Inr ni show ?thesis
    by (auto simp: reflect_def hook_onReflection_def)
qed

lemma retry_loop_all_fail:
  assumes hooks: "a_hooks (ag_config ag) = None"
    and pf: "always_fails fuel client promptConfig"
    and rf: "always_fails fuel client DEFAULT_REFLECTION_PROMPT"
  shows "retry_loop fuel client ag promptConfig promptInput attempts result rc meta w =
           ((x, rc', meta'), w') \<Longrightarrow> attempts \<le> maxRetries_of ag \<Longrightarrow>
         (\<exists>e. x = Threw e) \<or>
         (\<exists>res. x = Returned (Some res) \<and> error res \<noteq> None \<and>
                rc' = rc + (Suc (maxRetries_of ag) - attempts))"
proof (induction "Suc (maxRetries_of ag) - attempts" arbitrary: attempts result rc meta w)
  case 0
  then show ?case by simp
next
  case (Suc n)
  note loop = Suc.prems(1) and True = Suc.prems(2)
  have n: "n = Suc (maxRetries_of ag) - Suc attempts"
    using Suc.hyps(2) True by simp
  note IH = Suc.hyps(1) [OF n]
  have onError: "call_onError ag e = Inr ()" for e
    using hooks by (simp add: call_onError_def hook_onError_def)
  show ?case
  proof (cases "resolveModel ag (p_model promptConfig)")
    case (Inl err)
    with loop True show ?thesis
      by (auto simp: retry_loop.simps [of _ _ _ _ _ attempts])
  next
    case (Inr m)
    obtain inst w1 where
      ni: "new_PromptInstance promptConfig m promptInput True (ag_toolHandlers ag) w = (inst, w1)"
      by (metis surj_pair)
    from pf new_PromptInstance_fields(1) [OF ni] obtain res w2 e where
      pr: "PromptInstance_run fuel client inst w1 = (Returned res, w2)" and Some: "error res = Some e"
      unfolding always_fails_def by blast
    show ?thesis
    proof (cases "reflection_enabled ag \<and> Suc attempts \<le> maxRetries_of ag")
      case False
      show ?thesis
      proof (cases "Suc attempts \<le> maxRetries_of ag")
        case again: True
        with loop True Inr ni pr Some onError False
        have "retry_loop fuel client ag promptConfig promptInput (Suc attempts) (Some res)
                (Suc rc) meta w2 = ((x, rc', meta'), w')"
          by (simp add: retry_loop.simps [of _ _ _ _ _ attempts])
        from IH [OF this again] again show ?thesis
          by auto
      next
        case stop: False
        with loop True Inr ni pr Some onError False
        have "x = Returned (Some res)" "rc' = Suc rc"
          by (simp_all add: retry_loop.simps [of _ _ _ _ _ attempts])
        with Some stop True show ?thesis
          by auto
      qed
    next
      case reflecting: True
      obtain rout w3 where rfl: "reflect fuel client ag promptConfig res None w2 = (rout, w3)"
        by (metis surj_pair)
      from reflect_all_fail [OF rf hooks rfl] show ?thesis
      proof (elim disjE exE conjE)
        fix err assume "rout = Threw err"
        with loop True Inr ni pr Some onError reflecting rfl show ?thesis
          by (auto simp: retry_loop.simps [of _ _ _ _ _ attempts])
      next
        fix rres assume "rout = Returned rres" "error rres \<noteq> None"
        with loop True Inr ni pr Some onError reflecting rfl
        have "retry_loop fuel client ag promptConfig promptInput (Suc attempts) (Some res)
                (Suc rc) meta w3 = ((x, rc', meta'), w')"
          by (auto simp: retry_loop.simps [of _ _ _ _ _ attempts])
        from IH [OF this] reflecting show ?thesis
          by auto
      qed
    qed
  qed
qed

lemma Agent_run_all_fail:
  assumes hooks: "a_hooks (ag_config ag) = None"
    and ps: "prompts (ag_config ag) = promptConfig # rest"
    and pf: "always_fails fuel client promptConfig"
    and rf: "always_fails fuel client DEFAULT_REFLECTION_PROMPT"
  shows "\<exists>r w'. Agent_run fuel client ag inp w = (Returned r, w') \<and> a_error r \<noteq> None \<and>
           reflection_attempts (events_since w w') \<le> maxRetries_of ag"
proof -
  let ?w0 = "emit (AgentRunStart (ag_id ag) (a_name (ag_config ag)) inp) w"
  obtain x rc meta w1 where
    rl: "retry_loop fuel client ag promptConfig inp 0 None 0 None ?w0 = ((x, rc, meta), w1)"
    by (metis surj_pair)
  from retry_loop_counts [OF rl] obtain evs where
    evs: "emitted w1 = emitted ?w0 @ evs" "reflection_attempts evs \<le> maxRetries_of ag"
    by auto
  have count: "reflection_attempts (events_since w w') \<le> maxRetries_of ag"
    if "emitted w' = emitted w1 @ [AgentRunEnd i n r tu]" for w' :: "'a world" and i n r tu
    using that evs
    by (simp add: events_since_def emit_def reflection_attempts_def)
  have hk: "hook_beforeRun ag = None" "hook_afterRun ag = None"
    "call_beforePrompt ag promptConfig inp = Inr inp" "call_onError ag e = Inr ()"
    "call_afterPrompt ag promptConfig (Some res) = Inr (Some res)" for e res
    using hooks
    by (simp_all add: hook_beforeRun_def hook_afterRun_def call_beforePrompt_def
          hook_beforePrompt_def call_onError_def hook_onError_def call_afterPrompt_def
          hook_afterPrompt_def)
  have "\<exists>r w'. Agent_run fuel client ag inp w = (Returned r, w') \<and> a_error r \<noteq> None \<and>
          (\<exists>i n r' tu. emitted w' = emitted w1 @ [AgentRunEnd i n r' tu])"
    using retry_loop_all_fail [OF hooks pf rf rl le0]
  proof (elim disjE exE conjE)
    fix e assume "x = Threw e"
    with rl ps hk show ?thesis
      by (simp add: Agent_run_def agent_failed_def emit_def)
  next
    fix res assume "x = Returned (Some res)" "error res \<noteq> None"
      "rc = 0 + (Suc (maxRetries_of ag) - 0)"
    with rl ps hk show ?thesis
      by (auto simp: Agent_run_def agent_finished_def emit_def has_error_def push_result_def
            first_error_def)
  qed
  then show ?thesis
    using count by blast
qed

text \<open>
  C4. The retry loop of one prompt, entered with \<^verbatim>\<open>attempts = 0\<close>, starts at most
  \<^verbatim>\<open>maxRetries + 1\<close> prompt attempts; \<^verbatim>\<open>retryCount\<close> grows by one for each failed attempt;
  there are no more reflection attempts than failed attempts and no more than
  \<^verbatim>\<open>maxRetries\<close>; no reflection starts inside another one. This holds however the loop
  ends. In particular, when the agent has no hooks and every execution of its first prompt
  and of the reflection prompt fails, the run returns a result with an error and has made
  at most \<^verbatim>\<open>maxRetries\<close> reflection attempts: at most one for \<^verbatim>\<open>maxRetries: 1\<close>.
\<close>

theorem retry_and_reflection_bounded:
  "(retry_loop fuel client ag promptConfig promptInput 0 None rc meta w = ((x, rc', meta'), w') \<longrightarrow>
      prompt_attempts (events_since w w') \<le> maxRetries_of ag + 1 \<and>
      rc' = rc + failed_attempts (events_since w w') \<and>
      reflection_attempts (events_since w w') \<le> failed_attempts (events_since w w') \<and>
      reflection_attempts (events_since w w') \<le> maxRetries_of ag \<and>
      \<not> nested_reflection False (events_since w w'))
   \<and> (a_hooks (ag_config ag) = None \<and> prompts (ag_config ag) = promptConfig # rest \<and>
      always_fails fuel client promptConfig \<and> always_fails fuel client DEFAULT_REFLECTION_PROMPT \<longrightarrow>
      (\<exists>r w1. Agent_run fuel client ag inp w0 = (Returned r, w1) \<and> a_error r \<noteq> None \<and>
              reflection_attempts (events_since w0 w1) \<le> maxRetries_of ag))"
proof (intro conjI impI)
  assume "retry_loop fuel client ag promptConfig promptInput 0 None rc meta w = ((x, rc', meta'), w')"
  from retry_loop_counts [OF this] obtain evs where
    evs: "emitted w' = emitted w @ evs" "prompt_attempts evs \<le> Suc (maxRetries_of ag) - 0"
      "rc' = rc + failed_attempts evs" "reflection_attempts evs \<le> failed_attempts evs"
      "reflection_attempts evs \<le> maxRetries_of ag - 0" "\<not> nested_reflection False evs"
    by blast
  from evs(1) have eq: "events_since w w' = evs"
    by (simp add: events_since_def)
  from evs(2) show "prompt_attempts (events_since w w') \<le> maxRetries_of ag + 1"
    unfolding eq by simp
  from evs(3) show "rc' = rc + failed_attempts (events_since w w')"
    unfolding eq .
  from evs(4) show "reflection_attempts (events_since w w') \<le> failed_attempts (events_since w w')"
    unfolding eq .
  from evs(5) show "reflection_attempts (events_since w w') \<le> maxRetries_of ag"
    unfolding eq by simp
  from evs(6) show "\<not> nested_reflection False (events_since w w')"
    unfolding eq .
next
  assume "a_hooks (ag_config ag) = None \<and> prompts (ag_config ag) = promptConfig # rest \<and>
      always_fails fuel client promptConfig \<and> always_fails fuel client DEFAULT_REFLECTION_PROMPT"
  then show "\<exists>r w1. Agent_run fuel client ag inp w0 = (Returned r, w1) \<and> a_error r \<noteq> None \<and>
              reflection_attempts (events_since w0 w1) \<le> maxRetries_of ag"
    using Agent_run_all_fail [of ag promptConfig rest fuel client inp w0] by blast
qed

theorem retry_and_reflection_bounded_witness:
  "events_since initial_world
     (snd (retry_loop 1 (scripted []) reflecting_agent example_prompt
             (JObj [(''name'', JStr ''World'')]) 0 None 0 None initial_world)) = reflecting_events
   \<and> maxRetries_of reflecting_agent = 1
   \<and> prompt_attempts reflecting_events = 2
   \<and> failed_attempts reflecting_events = 2
   \<and> fst (snd (fst (retry_loop 1 (scripted []) reflecting_agent example_prompt
                       (JObj [(''name'', JStr ''World'')]) 0 None 0 None initial_world))) = 2
   \<and> reflection_attempts reflecting_events = 1
   \<and> \<not> nested_reflection False reflecting_events
   \<and> always_fails 1 (scripted []) example_prompt
   \<and> always_fails 1 (scripted []) DEFAULT_REFLECTION_PROMPT
   \<and> (\<exists>r w1. Agent_run 1 (scripted []) reflecting_agent (JObj [(''name'', JStr ''World'')])
                 initial_world = (Returned r, w1)
              \<and> a_error r \<noteq> None \<and> reflection_attempts (events_since initial_world w1) \<le> 1)"
proof -
  let ?inp = "JObj [(''name'', JStr ''World'')]"
  let ?L = "retry_loop 1 (scripted []) reflecting_agent example_prompt ?inp 0 None 0 None
              initial_world"
  have evs: "events_since initial_world (snd ?L) = reflecting_events"
    by (simp add: events_since_def reflecting_events_def run_defs example_defs
          reflecting_agent_def DEFAULT_REFLECTION_PROMPT_def)
  have counts: "prompt_attempts reflecting_events = 2" "failed_attempts reflecting_events = 2"
    "reflection_attempts reflecting_events = 1" "\<not> nested_reflection False reflecting_events"
    by (simp_all add: prompt_attempts_def failed_attempts_def reflection_attempts_def
          reflecting_events_def api_failure_def)
  have max: "maxRetries_of reflecting_agent = 1"
    by (simp add: maxRetries_of_def reflecting_agent_def)
  have fails: "always_fails 1 (scripted []) example_prompt"
    "always_fails 1 (scripted []) DEFAULT_REFLECTION_PROMPT"
    by (rule rejected_run_fails; simp add: scripted_def example_prompt_def
          DEFAULT_REFLECTION_PROMPT_def)+
  have cfg: "a_hooks (ag_config reflecting_agent) = None"
    "prompts (ag_config reflecting_agent) = example_prompt # []"
    by (simp_all add: reflecting_agent_def example_agent_def example_agent_config_def)
  note bounded = retry_and_reflection_bounded
    [where fuel = 1 and client = "scripted []" and ag = reflecting_agent
       and promptConfig = example_prompt and promptInput = ?inp and rc = 0 and meta = None
       and w = initial_world and x = "fst (fst ?L)" and rc' = "fst (snd (fst ?L))"
       and meta' = "snd (snd (fst ?L))" and w' = "snd ?L" and rest = "[]" and inp = ?inp
       and ?w0.0 = initial_world]
  from bounded have "fst (snd (fst ?L)) = 0 + failed_attempts (events_since initial_world (snd ?L))"
    by simp
  then have rc: "fst (snd (fst ?L)) = 2"
    unfolding evs counts by simp
  from bounded cfg fails
  have "\<exists>r w1. Agent_run 1 (scripted []) reflecting_agent ?inp initial_world = (Returned r, w1)
          \<and> a_error r \<noteq> None
          \<and> reflection_attempts (events_since initial_world w1) \<le> maxRetries_of reflecting_agent"
    by blast
  with evs counts max rc fails show ?thesis
    by simp
qed

section \<open>The order of events\<close>

















text \<open>
  Two cases in which a start event has no end event. \<^verbatim>\<open>reflect\<close> emits
  \<^verbatim>\<open>reflectionStart\<close> and then fails to resolve a model when only the prompt names one;
  the exception goes to the \<^verbatim>\<open>catch\<close> block of \<^verbatim>\<open>Agent.run\<close>. And \<^verbatim>\<open>executeStep\<close> has
  no \<^verbatim>\<open>try\<close>: an exception that escapes \<^verbatim>\<open>Agent.run\<close> leaves \<^verbatim>\<open>stepStart\<close> without
  \<^verbatim>\<open>stepEnd\<close>. The first case on an example:
\<close>

lemma reflection_left_open:
  "events_since initial_world
     (snd (Agent_run 0 (scripted []) prompt_model_agent (JObj []) initial_world)) =
   [AgentRunStart (Given ''a1'') ''TestAgent'' (JObj []),
    PromptInstanceStart (Generated 0) ''test'' (JObj []),
    PromptInstanceEnd (Generated 0) ''test'' api_failure no_usage,
    ReflectionStart (Given ''a1'') (Some (Error ''API Error'')),
    AgentRunEnd (Given ''a1'') ''TestAgent''
      \<lparr>promptResults = [], a_tokenUsage = no_usage, retryCount = 1, a_error = Some no_model,
       reflectionMetadata = None\<rparr> no_usage]
   \<and> \<not> well_bracketed (events_since initial_world
          (snd (Agent_run 0 (scripted []) prompt_model_agent (JObj []) initial_world)))"
  by (simp add: events_since_def well_bracketed_def run_defs example_defs prompt_model_agent_def)




end
